theory Spec2Isabelle
  imports Main "HOL-Library.Sublist"
begin

section \<open>SpectraLearnPredict2: the orchestrator (slp\_io.py) and the PCA diagnostic (slp\_pca.py)\<close>

text \<open>
  The two source files are glue code: they read process-wide configuration flags, call
  external services (loaders, preprocessing, model adapters, plotting) and write one CSV
  summary file.  The embedding keeps the control flow, the local and global variables, the
  configuration writes, the array aliasing and every place where Python raises; the
  external services are parameters.
\<close>

subsection \<open>Python values and exceptions\<close>

text \<open>
  \<open>Seq\<close> is a sequence that the orchestrator only reads (a tuple, or an array returned by a
  service); \<open>Ref a\<close> is a mutable array living at address \<open>a\<close> of the heap.  Numbers are
  integers: the floating-point content of spectra and confidences is never inspected by the
  orchestrator, and the conversion to \<open>float64\<close> that numpy applies on a store is not modelled.
\<close>

datatype val = NoneV | Bool bool | Num int | Str string | Seq "val list" | Ref nat

datatype error =
    NameError string
  | UnboundLocalError string
  | AttributeError string
  | TypeError
  | ValueError
  | IndexError
  | Raised string

subsection \<open>The configuration registry (slp\_config, imported with \<open>*\<close>)\<close>

text \<open>
  One field per attribute that the two source files read or write, named
  \<open>class_attribute\<close>.  The configuration module is not part of the sources, so two names
  that only \<open>LearnPredictMap\<close> uses are optional: \<open>dnntfDef_runKeras = None\<close> means that
  the class \<open>dnntfDef\<close> has no attribute \<open>runKeras\<close> (reading it raises AttributeError), and
  \<open>dnnDef_alwaysRetrain = None\<close> means that no global named \<open>dnnDef\<close> exists (assigning to
  its attribute raises NameError).
\<close>

record config =
  dnntfDef_runDNNTF :: bool
  dnntfDef_runSkflowDNNTF :: bool
  dnntfDef_alwaysRetrain :: bool
  dnntfDef_alwaysImprove :: bool
  dnntfDef_plotMap :: bool
  dnntfDef_runKeras :: "bool option"
  dnnDef_alwaysRetrain :: "bool option"
  kerasDef_runKeras :: bool
  nnDef_runNN :: bool
  nnDef_alwaysRetrain :: bool
  nnDef_plotMap :: bool
  svmDef_runSVM :: bool
  svmDef_alwaysRetrain :: bool
  svmDef_plotMap :: bool
  tfDef_runTF :: bool
  tfDef_tfalwaysRetrain :: bool
  tfDef_alwaysRetrain :: bool
  tfDef_plotMap :: bool
  kmDef_runKM :: bool
  kmDef_plotKM :: bool
  kmDef_plotMap :: bool
  pcaDef_runPCA :: bool
  pcaDef_customNumPCAComp :: bool
  pcaDef_numPCAcomponents :: int
  plotDef_createTrainingDataPlot :: bool
  plotDef_plotAllSpectra :: bool
  plotDef_showPCAPlots :: bool
  sysDef_multiProc :: bool
  sysDef_numCores :: nat

subsection \<open>The environment and the world\<close>

text \<open>
  \<open>ext name c args\<close> is the answer of the external service \<open>name\<close> (a function of another
  module, or a library routine) called with the arguments \<open>args\<close> while the configuration is
  \<open>c\<close>: a value, or the exception it raises.  Services are deterministic in the
  configuration and their arguments and write neither the configuration nor the summary
  file.  \<open>globals\<close> is the module namespace beyond the configuration classes: the names that
  a function reads without ever assigning them.  \<open>glob\<close> is \<open>glob.glob\<close> in the working
  directory, \<open>splitext0 p\<close> is \<open>os.path.splitext(p)[0]\<close>, and \<open>header\<close> is the header row of
  a summary file.
\<close>

record env =
  ext :: "string \<Rightarrow> config \<Rightarrow> val list \<Rightarrow> error + val"
  globals :: "string \<Rightarrow> val option"
  glob :: "string \<Rightarrow> string list"
  splitext0 :: "string \<Rightarrow> string"
  header :: "string \<Rightarrow> val list"

text \<open>
  The log records, in order, what the process prints and which services it calls, each call
  with the configuration in force and the arguments passed.
\<close>

datatype event = Print "val list" | Call string config "val list"

record world =
  cfg :: config
  heap :: "nat \<Rightarrow> val list option"
  next_ref :: nat
  files :: "string \<Rightarrow> val list list option"
  log :: "event list"

type_synonym 'a m = "world \<Rightarrow> (error + 'a) \<times> world"

definition ret :: "'a \<Rightarrow> 'a m" where
  "ret x = (\<lambda>w. (Inr x, w))"

definition throw :: "error \<Rightarrow> 'a m" where
  "throw e = (\<lambda>w. (Inl e, w))"

definition bnd :: "'a m \<Rightarrow> ('a \<Rightarrow> 'b m) \<Rightarrow> 'b m" where
  "bnd m f = (\<lambda>w. case m w of (Inl e, w') \<Rightarrow> (Inl e, w') | (Inr x, w') \<Rightarrow> f x w')"

definition ifc :: "(config \<Rightarrow> bool) \<Rightarrow> 'a m \<Rightarrow> 'a m \<Rightarrow> 'a m" where
  "ifc p m1 m2 = (\<lambda>w. if p (cfg w) then m1 w else m2 w)"

definition setcfg :: "(config \<Rightarrow> config) \<Rightarrow> unit m" where
  "setcfg u = (\<lambda>w. (Inr (), w\<lparr>cfg := u (cfg w)\<rparr>))"

definition pyprint :: "val list \<Rightarrow> unit m" where
  "pyprint parts = (\<lambda>w. (Inr (), w\<lparr>log := log w @ [Print parts]\<rparr>))"

text \<open>An array passed to a service is seen by the service with its current content.\<close>

definition snapshot :: "(nat \<Rightarrow> val list option) \<Rightarrow> val \<Rightarrow> val" where
  "snapshot h v = (case v of Ref a \<Rightarrow> (case h a of Some xs \<Rightarrow> Seq xs | None \<Rightarrow> v) | _ \<Rightarrow> v)"

definition call :: "env \<Rightarrow> string \<Rightarrow> val list \<Rightarrow> val m" where
  "call E name args = (\<lambda>w.
     let args' = map (snapshot (heap w)) args
     in (ext E name (cfg w) args', w\<lparr>log := log w @ [Call name (cfg w) args']\<rparr>))"

definition global :: "env \<Rightarrow> string \<Rightarrow> val m" where
  "global E name = (case globals E name of None \<Rightarrow> throw (NameError name) | Some v \<Rightarrow> ret v)"

definition local_var :: "string \<Rightarrow> val option \<Rightarrow> val m" where
  "local_var name v = (case v of None \<Rightarrow> throw (UnboundLocalError name) | Some x \<Rightarrow> ret x)"

text \<open>Iterating a value, as tuple unpacking and \<open>for\<close> do.\<close>

definition iter :: "(nat \<Rightarrow> val list option) \<Rightarrow> val \<Rightarrow> error + val list" where
  "iter h v = (case v of
       Seq xs \<Rightarrow> Inr xs
     | Str s \<Rightarrow> Inr (map (\<lambda>c. Str [c]) s)
     | Ref a \<Rightarrow> (case h a of Some xs \<Rightarrow> Inr xs | None \<Rightarrow> Inl TypeError)
     | _ \<Rightarrow> Inl TypeError)"

definition unpack2 :: "val \<Rightarrow> (val \<times> val) m" where
  "unpack2 v = (\<lambda>w. case iter (heap w) v of
       Inl e \<Rightarrow> (Inl e, w)
     | Inr xs \<Rightarrow> (case xs of [a, b] \<Rightarrow> (Inr (a, b), w) | _ \<Rightarrow> (Inl ValueError, w)))"

definition unpack3 :: "val \<Rightarrow> (val \<times> val \<times> val) m" where
  "unpack3 v = (\<lambda>w. case iter (heap w) v of
       Inl e \<Rightarrow> (Inl e, w)
     | Inr xs \<Rightarrow> (case xs of [a, b, c] \<Rightarrow> (Inr (a, b, c), w) | _ \<Rightarrow> (Inl ValueError, w)))"

definition unpack4 :: "val \<Rightarrow> (val \<times> val \<times> val \<times> val) m" where
  "unpack4 v = (\<lambda>w. case iter (heap w) v of
       Inl e \<Rightarrow> (Inl e, w)
     | Inr xs \<Rightarrow> (case xs of [a, b, c, d] \<Rightarrow> (Inr (a, b, c, d), w) | _ \<Rightarrow> (Inl ValueError, w)))"

definition call2 :: "env \<Rightarrow> string \<Rightarrow> val list \<Rightarrow> (val \<times> val) m" where
  "call2 E name args = bnd (call E name args) unpack2"

definition call3 :: "env \<Rightarrow> string \<Rightarrow> val list \<Rightarrow> (val \<times> val \<times> val) m" where
  "call3 E name args = bnd (call E name args) unpack3"

definition call4 :: "env \<Rightarrow> string \<Rightarrow> val list \<Rightarrow> (val \<times> val \<times> val \<times> val) m" where
  "call4 E name args = bnd (call E name args) unpack4"

text \<open>\<open>v[i]\<close> for a non-negative index, \<open>v[i] = x\<close>, \<open>v.shape[0]\<close> and \<open>np.empty([n])\<close>.\<close>

definition index :: "val \<Rightarrow> nat \<Rightarrow> val m" where
  "index v i = (\<lambda>w. case iter (heap w) v of
       Inl e \<Rightarrow> (Inl e, w)
     | Inr xs \<Rightarrow> if i < length xs then (Inr (xs ! i), w) else (Inl IndexError, w))"

definition store :: "val \<Rightarrow> nat \<Rightarrow> val \<Rightarrow> unit m" where
  "store v i x = (\<lambda>w. case v of
       Ref a \<Rightarrow> (case heap w a of
           Some xs \<Rightarrow> if i < length xs
                      then (Inr (), w\<lparr>heap := (heap w)(a \<mapsto> xs[i := x])\<rparr>)
                      else (Inl IndexError, w)
         | None \<Rightarrow> (Inl TypeError, w))
     | _ \<Rightarrow> (Inl TypeError, w))"

definition shape0 :: "val \<Rightarrow> nat m" where
  "shape0 v = (\<lambda>w. case v of
       Seq xs \<Rightarrow> (Inr (length xs), w)
     | Ref a \<Rightarrow> (case heap w a of Some xs \<Rightarrow> (Inr (length xs), w)
                                | None \<Rightarrow> (Inl (AttributeError ''shape''), w))
     | _ \<Rightarrow> (Inl (AttributeError ''shape''), w))"

text \<open>The content of a fresh \<open>np.empty\<close> array is unspecified; it is written \<open>NoneV\<close>.\<close>

definition np_empty :: "nat \<Rightarrow> val m" where
  "np_empty n = (\<lambda>w. (Inr (Ref (next_ref w)),
     w\<lparr>heap := (heap w)(next_ref w \<mapsto> replicate n NoneV), next_ref := Suc (next_ref w)\<rparr>))"

subsection \<open>Batch mode: \<open>processSingleBatch\<close> (slp\_io.py, lines 174-230)\<close>

text \<open>
  The function is split at its own comment headings.  Each block takes the row built so far
  (the local list \<open>summaryFile\<close>) and returns it extended.  The terminal escape codes of the
  first print are left out.
\<close>

definition batch_DNNTF :: "env \<Rightarrow> val \<Rightarrow> val \<Rightarrow> val \<Rightarrow> string \<Rightarrow> val list \<Rightarrow> (val list) m" where
  "batch_DNNTF E A Cl R learnFileRoot summaryFile =
     ifc (\<lambda>c. dnntfDef_runDNNTF c = True)
       (bnd (ifc (\<lambda>c. dnntfDef_runSkflowDNNTF c = False)
               (bnd (call2 E ''trainDNNTF'' [A, Cl, A, Cl, Str learnFileRoot])
                  (\<lambda>(clf_dnntf, le_dnntf). call2 E ''predDNNTF'' [clf_dnntf, le_dnntf, R, Cl]))
               (bnd (call2 E ''trainDNNTF2'' [A, Cl, A, Cl, Str learnFileRoot])
                  (\<lambda>(clf_dnntf, le_dnntf). call2 E ''predDNNTF2'' [clf_dnntf, le_dnntf, R, Cl])))
          (\<lambda>(dnntfPred, dnntfProb).
             bnd (setcfg (\<lambda>c. c\<lparr>dnntfDef_alwaysRetrain := False\<rparr>))
               (\<lambda>_. ret (summaryFile @ [dnntfPred, dnntfProb]))))
       (ret summaryFile)"

text \<open>
  Line 196 binds the trained model to the local \<open>model\<close>; line 197 reads \<open>model_keras\<close>,
  which the function never assigns, so it is looked up in the module namespace.
\<close>

definition batch_Keras :: "env \<Rightarrow> val \<Rightarrow> val \<Rightarrow> val \<Rightarrow> val \<Rightarrow> string \<Rightarrow> val list \<Rightarrow> (val list) m" where
  "batch_Keras E En A Cl R learnFileRoot summaryFile =
     ifc (\<lambda>c. kerasDef_runKeras c = True)
       (bnd (call2 E ''trainKeras'' [En, A, Cl, A, Cl, Str learnFileRoot])
          (\<lambda>(model, le_keras).
             bnd (global E ''model_keras'')
               (\<lambda>model_keras.
                  bnd (call2 E ''predKeras'' [model_keras, le_keras, R, Cl])
                    (\<lambda>(kerasPred, kerasProb). ret (summaryFile @ [kerasPred, kerasProb])))))
       (ret summaryFile)"

definition batch_NN :: "env \<Rightarrow> val \<Rightarrow> val \<Rightarrow> val \<Rightarrow> string \<Rightarrow> val list \<Rightarrow> (val list) m" where
  "batch_NN E A Cl R learnFileRoot summaryFile =
     ifc (\<lambda>c. nnDef_runNN c = True)
       (bnd (call2 E ''trainNN'' [A, Cl, A, Cl, Str learnFileRoot])
          (\<lambda>(clf_nn, le_nn).
             bnd (call2 E ''predNN'' [clf_nn, A, Cl, R, le_nn])
               (\<lambda>(nnPred, nnProb).
                  bnd (setcfg (\<lambda>c. c\<lparr>nnDef_alwaysRetrain := False\<rparr>))
                    (\<lambda>_. ret (summaryFile @ [nnPred, nnProb])))))
       (ret summaryFile)"

definition batch_SVM :: "env \<Rightarrow> val \<Rightarrow> val \<Rightarrow> val \<Rightarrow> val \<Rightarrow> string \<Rightarrow> val list \<Rightarrow> (val list) m" where
  "batch_SVM E En A Cl R learnFileRoot summaryFile =
     ifc (\<lambda>c. svmDef_runSVM c = True)
       (bnd (call2 E ''trainSVM'' [A, Cl, A, Cl, Str learnFileRoot])
          (\<lambda>(clf_svm, le_svm).
             bnd (call2 E ''predSVM'' [clf_svm, A, Cl, En, R, le_svm])
               (\<lambda>(svmPred, svmProb).
                  bnd (setcfg (\<lambda>c. c\<lparr>svmDef_alwaysRetrain := False\<rparr>))
                    (\<lambda>_. ret (summaryFile @ [svmPred, svmProb])))))
       (ret summaryFile)"

text \<open>
  Line 218 reads \<open>tfAccur\<close>, which the function never assigns: a lookup in the module
  namespace, made before the flag of line 219 is written.
\<close>

definition batch_TF :: "env \<Rightarrow> val \<Rightarrow> val \<Rightarrow> val \<Rightarrow> string \<Rightarrow> val list \<Rightarrow> (val list) m" where
  "batch_TF E A Cl R learnFileRoot summaryFile =
     ifc (\<lambda>c. tfDef_runTF c = True)
       (bnd (call E ''trainTF'' [A, Cl, A, Cl, Str learnFileRoot])
          (\<lambda>_.
             bnd (call2 E ''predTF'' [A, Cl, R, Str learnFileRoot])
               (\<lambda>(tfPred, tfProb).
                  bnd (global E ''tfAccur'')
                    (\<lambda>tfAccur.
                       bnd (setcfg (\<lambda>c. c\<lparr>tfDef_tfalwaysRetrain := False\<rparr>))
                         (\<lambda>_. ret (summaryFile @ [tfPred, tfProb, tfAccur]))))))
       (ret summaryFile)"

definition batch_KM :: "env \<Rightarrow> val \<Rightarrow> val \<Rightarrow> val \<Rightarrow> val \<Rightarrow> val \<Rightarrow> val \<Rightarrow> val list \<Rightarrow> (val list) m" where
  "batch_KM E En A Cl R Aorig Rorig summaryFile =
     ifc (\<lambda>c. kmDef_runKM c = True)
       (bnd (setcfg (\<lambda>c. c\<lparr>kmDef_plotKM := False\<rparr>))
          (\<lambda>_.
             bnd (call E ''runKMmain'' [A, Cl, En, R, Aorig, Rorig])
               (\<lambda>kmPred. ret (summaryFile @ [kmPred]))))
       (ret summaryFile)"

text \<open>
  \<open>open(summary_filename, "a")\<close> followed by \<open>csv.writer(...).writerow(summaryFile)\<close>: the
  row is appended to the file, which is created when it does not exist.
\<close>

definition rows_of :: "world \<Rightarrow> string \<Rightarrow> val list list" where
  "rows_of w name = (case files w name of None \<Rightarrow> [] | Some rs \<Rightarrow> rs)"

definition append_row :: "string \<Rightarrow> val list \<Rightarrow> unit m" where
  "append_row name row = (\<lambda>w. (Inr (), w\<lparr>files := (files w)(name \<mapsto> rows_of w name @ [row])\<rparr>))"

text \<open>Lines 175-225: everything up to the write; the result is the finished row.\<close>

definition batch_row ::
  "env \<Rightarrow> string \<Rightarrow> val \<Rightarrow> val \<Rightarrow> val \<Rightarrow> val \<Rightarrow> val \<Rightarrow> string \<Rightarrow> (val list) m" where
  "batch_row E f En Cl A Aorig YnormXind learnFile =
     bnd (pyprint [Str '' Processing file: '', Str f])
       (\<lambda>_.
     bnd (call2 E ''readPredFile'' [Str f])
       (\<lambda>(R, Rx).
     bnd (call2 E ''preProcessNormPredData'' [R, Rx, En, YnormXind, Num 0])
       (\<lambda>(R, Rorig).
     bnd (batch_DNNTF E A Cl R (splitext0 E learnFile) [Str f])
       (\<lambda>summaryFile.
     bnd (batch_Keras E En A Cl R (splitext0 E learnFile) summaryFile)
       (\<lambda>summaryFile.
     bnd (batch_NN E A Cl R (splitext0 E learnFile) summaryFile)
       (\<lambda>summaryFile.
     bnd (batch_SVM E En A Cl R (splitext0 E learnFile) summaryFile)
       (\<lambda>summaryFile.
     bnd (batch_TF E A Cl R (splitext0 E learnFile) summaryFile)
       (\<lambda>summaryFile.
     batch_KM E En A Cl R Aorig Rorig summaryFile))))))))"

definition processSingleBatch ::
  "env \<Rightarrow> string \<Rightarrow> val \<Rightarrow> val \<Rightarrow> val \<Rightarrow> val \<Rightarrow> val \<Rightarrow> string \<Rightarrow> string \<Rightarrow> unit m" where
  "processSingleBatch E f En Cl A Aorig YnormXind summary_filename learnFile =
     bnd (batch_row E f En Cl A Aorig YnormXind learnFile)
       (\<lambda>summaryFile. append_row summary_filename summaryFile)"

subsection \<open>Batch mode: \<open>LearnPredictBatch\<close> (slp\_io.py, lines 154-172)\<close>

text \<open>
  Modelled from the spec: \<open>makeHeaderSummary\<close> is a function of this repository that is not
  among the sources.  According to the specification it writes the header row of the summary
  file, once; here it appends the row \<open>header E learnFile\<close> to the file.
\<close>

definition makeHeaderSummary :: "env \<Rightarrow> string \<Rightarrow> string \<Rightarrow> unit m" where
  "makeHeaderSummary E summary_filename learnFile = append_row summary_filename (header E learnFile)"

text \<open>
  The sequential loop of lines 170-172.  An exception raised while one file is processed
  leaves the loop: the files after it are not visited.
\<close>

fun batch_loop ::
  "env \<Rightarrow> val \<Rightarrow> val \<Rightarrow> val \<Rightarrow> val \<Rightarrow> val \<Rightarrow> string \<Rightarrow> string \<Rightarrow> string list \<Rightarrow> unit m" where
  "batch_loop E En Cl A Aorig YnormXind summary_filename learnFile [] = ret ()"
| "batch_loop E En Cl A Aorig YnormXind summary_filename learnFile (f # fs) =
     bnd (if f \<noteq> learnFile
          then processSingleBatch E f En Cl A Aorig YnormXind summary_filename learnFile
          else ret ())
       (\<lambda>_. batch_loop E En Cl A Aorig YnormXind summary_filename learnFile fs)"

text \<open>
  The loop of lines 164-166 hands one task per file to the pool: the arguments of
  \<open>processSingleBatch\<close>, in the order of the call.
\<close>

type_synonym task = "string \<times> val \<times> val \<times> val \<times> val \<times> val \<times> string \<times> string"

fun submit_loop ::
  "val \<Rightarrow> val \<Rightarrow> val \<Rightarrow> val \<Rightarrow> val \<Rightarrow> string \<Rightarrow> string \<Rightarrow> string list \<Rightarrow> task list" where
  "submit_loop En Cl A Aorig YnormXind summary_filename learnFile [] = []"
| "submit_loop En Cl A Aorig YnormXind summary_filename learnFile (f # fs) =
     (if f \<noteq> learnFile
      then [(f, En, Cl, A, Aorig, YnormXind, summary_filename, learnFile)]
      else [])
     @ submit_loop En Cl A Aorig YnormXind summary_filename learnFile fs"

definition run_task :: "env \<Rightarrow> task \<Rightarrow> unit m" where
  "run_task E t = (case t of (f, En, Cl, A, Aorig, YnormXind, summary_filename, learnFile) \<Rightarrow>
     processSingleBatch E f En Cl A Aorig YnormXind summary_filename learnFile)"

text \<open>
  A process pool: the tasks not yet started, in the order of submission; the worker
  processes, each with its own copy of the world (configuration, heap, output) and the task it
  is running, if any; and the files on disk, which all processes share.
\<close>

record pool =
  queue :: "task list"
  workers :: "(world \<times> task option) list"
  disk :: "string \<Rightarrow> val list list option"

text \<open>
  The name of the summary file is built from the current time; it is a parameter.  In
  sequential mode the function returns \<open>None\<close> when the loop is over.  With
  \<open>sysDef.multiProc\<close> it creates the pool (\<open>mp.Pool\<close> raises ValueError when asked for no
  process) and submits the tasks; the result is the pool at that moment, and what the pool
  does until \<open>p.join()\<close> returns is described by \<open>pool_step\<close> below.
\<close>

definition LearnPredictBatch :: "env \<Rightarrow> string \<Rightarrow> string \<Rightarrow> (pool option) m" where
  "LearnPredictBatch E learnFile summary_filename =
     bnd (makeHeaderSummary E summary_filename learnFile)
       (\<lambda>_.
     bnd (call4 E ''readLearnFile'' [Str learnFile])
       (\<lambda>(En, Cl, A, YnormXind).
     bnd (call4 E ''preProcessNormLearningData'' [A, En, Cl, YnormXind, Num 0])
       (\<lambda>(A, Cl, En, Aorig).
     ifc (\<lambda>c. sysDef_multiProc c = True)
       (\<lambda>w. if sysDef_numCores (cfg w) = 0 then (Inl ValueError, w)
            else (Inr (Some \<lparr>queue = submit_loop En Cl A Aorig YnormXind summary_filename learnFile
                                         (glob E ''*.txt''),
                              workers = replicate (sysDef_numCores (cfg w)) (w\<lparr>log := []\<rparr>, None),
                              disk = files w\<rparr>), w))
       (bnd (batch_loop E En Cl A Aorig YnormXind summary_filename learnFile (glob E ''*.txt''))
          (\<lambda>_. ret None)))))"

text \<open>
  One step of the pool.  An idle worker takes the oldest task of the queue; a busy worker
  finishes its task: it has run \<open>processSingleBatch\<close> in its own world on the shared disk, and
  whatever the task raised is dropped, since nobody asks for the result of \<open>apply_async\<close>.
  The append of a row is one step, so rows of different workers do not mix.
\<close>

inductive pool_step :: "env \<Rightarrow> pool \<Rightarrow> pool \<Rightarrow> bool" for E :: env where
  start: "queue p = t # q \<Longrightarrow> k < length (workers p) \<Longrightarrow> workers p ! k = (w, None) \<Longrightarrow>
          pool_step E p (p\<lparr>queue := q, workers := (workers p)[k := (w, Some t)]\<rparr>)"
| finish: "k < length (workers p) \<Longrightarrow> workers p ! k = (w, Some t) \<Longrightarrow>
          run_task E t (w\<lparr>files := disk p\<rparr>) = (r, w') \<Longrightarrow>
          pool_step E p (p\<lparr>workers := (workers p)[k := (w', None)], disk := files w'\<rparr>)"

definition pool_idle :: "pool \<Rightarrow> bool" where
  "pool_idle p = (queue p = [] \<and> (\<forall>x \<in> set (workers p). snd x = None))"

subsection \<open>The PCA diagnostic: \<open>runPCA\<close> (slp\_pca.py, lines 39-119)\<close>

definition getc :: "(config \<Rightarrow> 'a) \<Rightarrow> 'a m" where
  "getc sel = (\<lambda>w. (Inr (sel (cfg w)), w))"

text \<open>\<open>np.unique(Cl).shape[0]\<close>: the number of distinct elements; a scalar counts as one.\<close>

definition elems :: "(nat \<Rightarrow> val list option) \<Rightarrow> val \<Rightarrow> val list" where
  "elems h v = (case v of
       Seq xs \<Rightarrow> xs
     | Ref a \<Rightarrow> (case h a of Some xs \<Rightarrow> xs | None \<Rightarrow> [v])
     | _ \<Rightarrow> [v])"

definition np_unique_count :: "val \<Rightarrow> nat m" where
  "np_unique_count v = (\<lambda>w. (Inr (length (remdups (elems (heap w) v))), w))"

text \<open>The loop of lines 58-59 over \<open>range(0, pca.components_.shape[0])\<close>.\<close>

fun print_scores :: "val \<Rightarrow> nat list \<Rightarrow> unit m" where
  "print_scores ratio [] = ret ()"
| "print_scores ratio (i # is) =
     bnd (index ratio i)
       (\<lambda>v. bnd (pyprint [Str '' Score PC '', Num (int i), v]) (\<lambda>_. print_scores ratio is))"

text \<open>
  The library steps \<open>PCA(n_components=numPCAcomp)\<close>, \<open>pca.fit(A)\<close> and \<open>.transform(A)\<close> are
  the service \<open>PCA\<close>, called with the number of components and the matrix; its answer holds
  what the code reads afterwards: \<open>pca.components_\<close>, \<open>pca.explained_variance_ratio_\<close> and
  the transformed matrix.  Lines 62-119 only drive matplotlib; they are the single drawing
  service \<open>plotPCA\<close>.  The function returns nothing and assigns to none of its arguments.
\<close>

definition runPCA :: "env \<Rightarrow> val \<Rightarrow> val \<Rightarrow> val \<Rightarrow> val \<Rightarrow> int \<Rightarrow> unit m" where
  "runPCA E En Cl A YnormXind numPCAcomponents =
     bnd (pyprint [Str ''==========================================================================''])
       (\<lambda>_.
     bnd (pyprint [Str '' Running PCA...''])
       (\<lambda>_.
     bnd (np_unique_count Cl)
       (\<lambda>n.
     bnd (pyprint [Str '' Number of unique identifiers in training data: '', Num (int n)])
       (\<lambda>_.
     bnd (ifc (\<lambda>c. pcaDef_customNumPCAComp c = False)
            (bnd (np_unique_count Cl) (\<lambda>n. ret (Num (int n))))
            (ret (Num numPCAcomponents)))
       (\<lambda>numPCAcomp.
     bnd (pyprint [Str '' Number of Principal components: '', numPCAcomp])
       (\<lambda>_.
     bnd (call3 E ''PCA'' [numPCAcomp, A])
       (\<lambda>(components, ratio, A_r).
     bnd (shape0 components)
       (\<lambda>k.
     bnd (print_scores ratio [0..<k])
       (\<lambda>_.
     bnd (pyprint [Str []])
       (\<lambda>_.
     ifc (\<lambda>c. plotDef_showPCAPlots c = True)
       (bnd (pyprint [Str '' Plotting Loadings and score plots... ''])
          (\<lambda>_. bnd (call E ''plotPCA'' [En, Cl, components, ratio, A_r]) (\<lambda>_. ret ())))
       (ret ())))))))))))"

subsection \<open>Single-file mode: \<open>LearnPredictFile\<close> (slp\_io.py, lines 40-93)\<close>

text \<open>Lines 50-93: everything after the PCA diagnostic.\<close>

definition file_rest :: "env \<Rightarrow> string \<Rightarrow> string \<Rightarrow> val \<Rightarrow> val \<Rightarrow> val \<Rightarrow> val \<Rightarrow> unit m" where
  "file_rest E learnFile sampleFile En Cl A YnormXind =
     bnd (call2 E ''readPredFile'' [Str sampleFile])
       (\<lambda>(R, Rx).
     bnd (call4 E ''preProcessNormLearningData'' [A, En, Cl, YnormXind, Num 0])
       (\<lambda>(A, Cl, En, Aorig).
     bnd (call2 E ''preProcessNormPredData'' [R, Rx, En, YnormXind, Num 0])
       (\<lambda>(R, Rorig).
     bnd (ifc (\<lambda>c. dnntfDef_runDNNTF c = True)
            (bnd (setcfg (\<lambda>c. c\<lparr>dnntfDef_alwaysImprove := False\<rparr>))
               (\<lambda>_. ifc (\<lambda>c. dnntfDef_runSkflowDNNTF c = False)
                  (bnd (call2 E ''trainDNNTF'' [A, Cl, A, Cl, Str (splitext0 E learnFile)])
                     (\<lambda>(clf_dnntf, le_dnntf).
                        bnd (call E ''predDNNTF'' [clf_dnntf, le_dnntf, R, Cl]) (\<lambda>_. ret ())))
                  (bnd (call2 E ''trainDNNTF2'' [A, Cl, A, Cl, Str (splitext0 E learnFile)])
                     (\<lambda>(clf_dnntf, le_dnntf).
                        bnd (call E ''predDNNTF2'' [clf_dnntf, le_dnntf, R, Cl]) (\<lambda>_. ret ())))))
            (ret ()))
       (\<lambda>_.
     bnd (ifc (\<lambda>c. nnDef_runNN c = True)
            (bnd (call2 E ''trainNN'' [A, Cl, A, Cl, Str (splitext0 E learnFile)])
               (\<lambda>(clf_nn, le_nn). bnd (call E ''predNN'' [clf_nn, A, Cl, R, le_nn]) (\<lambda>_. ret ())))
            (ret ()))
       (\<lambda>_.
     bnd (ifc (\<lambda>c. svmDef_runSVM c = True)
            (bnd (call2 E ''trainSVM'' [A, Cl, A, Cl, Str (splitext0 E learnFile)])
               (\<lambda>(clf_svm, le_svm). bnd (call E ''predSVM'' [clf_svm, A, Cl, R, le_svm]) (\<lambda>_. ret ())))
            (ret ()))
       (\<lambda>_.
     bnd (ifc (\<lambda>c. tfDef_runTF c = True)
            (bnd (call E ''trainTF'' [A, Cl, A, Cl, Str (splitext0 E learnFile)])
               (\<lambda>_. bnd (call E ''predTF'' [A, Cl, R, Str (splitext0 E learnFile)]) (\<lambda>_. ret ())))
            (ret ()))
       (\<lambda>_.
     bnd (ifc (\<lambda>c. kerasDef_runKeras c = True)
            (bnd (call2 E ''trainKeras'' [En, A, Cl, A, Cl, Str (splitext0 E learnFile)])
               (\<lambda>(model_keras, le_keras).
                  bnd (call E ''predKeras'' [model_keras, le_keras, R, Cl]) (\<lambda>_. ret ())))
            (ret ()))
       (\<lambda>_.
     bnd (ifc (\<lambda>c. plotDef_createTrainingDataPlot c = True)
            (bnd (getc plotDef_plotAllSpectra)
               (\<lambda>b. bnd (call E ''plotTrainData'' [A, En, R, Bool b, Str (splitext0 E learnFile)])
                       (\<lambda>_. ret ())))
            (ret ()))
       (\<lambda>_.
     ifc (\<lambda>c. kmDef_runKM c = True)
       (bnd (call E ''runKMmain'' [A, Cl, En, R, Aorig, Rorig]) (\<lambda>_. ret ()))
       (ret ()))))))))))"

definition LearnPredictFile :: "env \<Rightarrow> string \<Rightarrow> string \<Rightarrow> unit m" where
  "LearnPredictFile E learnFile sampleFile =
     bnd (call4 E ''readLearnFile'' [Str learnFile])
       (\<lambda>(En, Cl, A, YnormXind).
     bnd (ifc (\<lambda>c. pcaDef_runPCA c = True)
            (bnd (getc pcaDef_numPCAcomponents) (\<lambda>n. runPCA E En Cl A YnormXind n))
            (ret ()))
       (\<lambda>_. file_rest E learnFile sampleFile En Cl A YnormXind))"

subsection \<open>Map mode: \<open>LearnPredictMap\<close> (slp\_io.py, lines 235-317)\<close>

text \<open>
  The local variables that the function assigns after line 246; \<open>None\<close> is a local that
  has not been assigned yet (reading it raises UnboundLocalError).  \<open>type_flag\<close> and
  \<open>i_idx\<close> are the locals \<open>type\<close> and \<open>i\<close>.  The names \<open>cl_dnntf\<close>, \<open>dnntfPred\<close> and
  \<open>kerasPred\<close> are never assigned by the function: they are looked up in the module
  namespace.  The local \<open>temp\<close> is written and never read.
\<close>

record map_locals =
  clf_nn :: "val option"
  le_nn :: "val option"
  clf_dnntf :: "val option"
  le_dnntf :: "val option"
  model_keras :: "val option"
  le_keras :: "val option"
  clf_svm :: "val option"
  le_svm :: "val option"
  svmPred :: val
  nnPred :: val
  tfPred :: val
  kmPred :: val
  type_flag :: int
  i_idx :: nat

text \<open>
  Line 245, \<open>svmPred = nnPred = tfPred = kmPred = np.empty([X.shape[0]])\<close>: one array is
  allocated and the four names are bound to it.
\<close>

definition map_init :: "val \<Rightarrow> map_locals m" where
  "map_init X =
     bnd (shape0 X)
       (\<lambda>n. bnd (np_empty n)
          (\<lambda>arr. ret \<lparr>clf_nn = None, le_nn = None, clf_dnntf = None, le_dnntf = None,
                      model_keras = None, le_keras = None, clf_svm = None, le_svm = None,
                      svmPred = arr, nnPred = arr, tfPred = arr, kmPred = arr,
                      type_flag = 0, i_idx = 0\<rparr>))"

text \<open>Lines 249-262: the models trained before the loop.\<close>

definition map_train :: "env \<Rightarrow> val \<Rightarrow> val \<Rightarrow> val \<Rightarrow> string \<Rightarrow> map_locals \<Rightarrow> map_locals m" where
  "map_train E A Cl En learnFileRoot L =
     bnd (ifc (\<lambda>c. nnDef_runNN c = True)
            (bnd (call2 E ''trainNN'' [A, Cl, A, Cl, Str learnFileRoot])
               (\<lambda>(c, l). ret (L\<lparr>clf_nn := Some c, le_nn := Some l\<rparr>)))
            (ret L))
       (\<lambda>L.
     bnd (ifc (\<lambda>c. dnntfDef_runDNNTF c = True)
            (ifc (\<lambda>c. dnntfDef_runSkflowDNNTF c = False)
               (bnd (call2 E ''trainDNNTF'' [A, Cl, A, Cl, Str learnFileRoot])
                  (\<lambda>(c, l). ret (L\<lparr>clf_dnntf := Some c, le_dnntf := Some l\<rparr>)))
               (bnd (call2 E ''trainDNNTF2'' [A, Cl, A, Cl, Str learnFileRoot])
                  (\<lambda>(c, l). ret (L\<lparr>clf_dnntf := Some c, le_dnntf := Some l\<rparr>))))
            (ret L))
       (\<lambda>L.
     bnd (ifc (\<lambda>c. kerasDef_runKeras c = True)
            (bnd (call2 E ''trainKeras'' [En, A, Cl, A, Cl, Str learnFileRoot])
               (\<lambda>(c, l). ret (L\<lparr>model_keras := Some c, le_keras := Some l\<rparr>)))
            (ret L))
       (\<lambda>L.
     ifc (\<lambda>c. svmDef_runSVM c = True)
       (bnd (call2 E ''trainSVM'' [A, Cl, A, Cl, Str learnFileRoot])
          (\<lambda>(c, l). ret (L\<lparr>clf_svm := Some c, le_svm := Some l\<rparr>)))
       (ret L))))"

text \<open>
  \<open>saveMap(mapFile, name, 'HC', arr[i], X[i], Y[i], True)\<close>: the three subscripts are
  evaluated from left to right, then the service is called.
\<close>

definition save_pixel :: "env \<Rightarrow> string \<Rightarrow> string \<Rightarrow> val \<Rightarrow> val \<Rightarrow> val \<Rightarrow> nat \<Rightarrow> unit m" where
  "save_pixel E mapFile name arr X Y i =
     bnd (index arr i)
       (\<lambda>v. bnd (index X i)
          (\<lambda>x. bnd (index Y i)
             (\<lambda>y. bnd (call E ''saveMap'' [Str mapFile, Str name, Str ''HC'', v, x, y, Bool True])
                (\<lambda>_. ret ()))))"

text \<open>Lines 269-276.\<close>

definition pixel_DNNTF :: "env \<Rightarrow> string \<Rightarrow> val \<Rightarrow> val \<Rightarrow> val \<Rightarrow> val \<Rightarrow> map_locals \<Rightarrow> unit m" where
  "pixel_DNNTF E mapFile X Y Cl r L =
     ifc (\<lambda>c. dnntfDef_runDNNTF c = True)
       (bnd (ifc (\<lambda>c. dnntfDef_runSkflowDNNTF c = False)
               (bnd (global E ''cl_dnntf'')
                  (\<lambda>cl. bnd (local_var ''le_dnntf'' (le_dnntf L))
                     (\<lambda>le. call2 E ''predDNNTF'' [cl, le, r, Cl])))
               (bnd (global E ''cl_dnntf'')
                  (\<lambda>cl. bnd (local_var ''le_dnntf'' (le_dnntf L))
                     (\<lambda>le. call2 E ''predDNNTF2'' [cl, le, r, Cl]))))
          (\<lambda>(p, temp).
             bnd (global E ''dnntfPred'')
               (\<lambda>arr. bnd (store arr (i_idx L) p)
                  (\<lambda>_. bnd (global E ''dnntfPred'')
                     (\<lambda>arr. bnd (save_pixel E mapFile ''DNN-TF'' arr X Y (i_idx L))
                        (\<lambda>_. (\<lambda>w. case dnnDef_alwaysRetrain (cfg w) of
                                 None \<Rightarrow> (Inl (NameError ''dnnDef''), w)
                               | Some b \<Rightarrow> (Inr (), w\<lparr>cfg := (cfg w)\<lparr>dnnDef_alwaysRetrain := Some False\<rparr>\<rparr>))))))))
       (ret ())"

text \<open>Lines 278-280: the test reads \<open>dnntfDef.runKeras\<close>, not \<open>kerasDef.runKeras\<close>.\<close>

definition pixel_Keras :: "env \<Rightarrow> string \<Rightarrow> val \<Rightarrow> val \<Rightarrow> val \<Rightarrow> val \<Rightarrow> map_locals \<Rightarrow> unit m" where
  "pixel_Keras E mapFile X Y Cl r L =
     (\<lambda>w. case dnntfDef_runKeras (cfg w) of
        None \<Rightarrow> (Inl (AttributeError ''runKeras''), w)
      | Some b \<Rightarrow>
          (if b = True
           then bnd (local_var ''model_keras'' (model_keras L))
                  (\<lambda>mk. bnd (local_var ''le_keras'' (le_keras L))
                     (\<lambda>le. bnd (call2 E ''predKeras'' [mk, le, r, Cl])
                        (\<lambda>(p, temp). bnd (global E ''kerasPred'')
                           (\<lambda>arr. bnd (store arr (i_idx L) p)
                              (\<lambda>_. bnd (global E ''kerasPred'')
                                 (\<lambda>arr. save_pixel E mapFile ''Keras'' arr X Y (i_idx L))))))) w
           else (Inr (), w)))"

text \<open>Lines 283-286.\<close>

definition pixel_NN :: "env \<Rightarrow> string \<Rightarrow> val \<Rightarrow> val \<Rightarrow> val \<Rightarrow> val \<Rightarrow> val \<Rightarrow> map_locals \<Rightarrow> unit m" where
  "pixel_NN E mapFile X Y A Cl r L =
     ifc (\<lambda>c. nnDef_runNN c = True)
       (bnd (local_var ''clf_nn'' (clf_nn L))
          (\<lambda>clf. bnd (local_var ''le_nn'' (le_nn L))
             (\<lambda>le. bnd (call2 E ''predNN'' [clf, A, Cl, r, le])
                (\<lambda>(p, temp). bnd (store (nnPred L) (i_idx L) p)
                   (\<lambda>_. bnd (save_pixel E mapFile ''NN'' (nnPred L) X Y (i_idx L))
                      (\<lambda>_. setcfg (\<lambda>c. c\<lparr>nnDef_alwaysRetrain := False\<rparr>)))))))
       (ret ())"

text \<open>Lines 289-292.\<close>

definition pixel_SVM ::
  "env \<Rightarrow> string \<Rightarrow> val \<Rightarrow> val \<Rightarrow> val \<Rightarrow> val \<Rightarrow> val \<Rightarrow> val \<Rightarrow> map_locals \<Rightarrow> unit m" where
  "pixel_SVM E mapFile X Y A Cl En r L =
     ifc (\<lambda>c. svmDef_runSVM c = True)
       (bnd (local_var ''clf_svm'' (clf_svm L))
          (\<lambda>clf. bnd (local_var ''le_svm'' (le_svm L))
             (\<lambda>le. bnd (call2 E ''predSVM'' [clf, A, Cl, En, r, le])
                (\<lambda>(p, temp). bnd (store (svmPred L) (i_idx L) p)
                   (\<lambda>_. bnd (save_pixel E mapFile ''svm'' (svmPred L) X Y (i_idx L))
                      (\<lambda>_. setcfg (\<lambda>c. c\<lparr>svmDef_alwaysRetrain := False\<rparr>)))))))
       (ret ())"

text \<open>
  Lines 295-299: the model is trained again at every pixel, and line 297 binds the name
  \<open>tfPred\<close> to the first component of what \<open>predTF\<close> returns; line 298 then subscripts that
  value.  The block returns the locals with the new binding.
\<close>

definition pixel_TF ::
  "env \<Rightarrow> string \<Rightarrow> val \<Rightarrow> val \<Rightarrow> val \<Rightarrow> val \<Rightarrow> string \<Rightarrow> val \<Rightarrow> map_locals \<Rightarrow> map_locals m" where
  "pixel_TF E mapFile X Y A Cl learnFileRoot r L =
     ifc (\<lambda>c. tfDef_runTF c = True)
       (bnd (call E ''trainTF'' [A, Cl, A, Cl, Str learnFileRoot])
          (\<lambda>_. bnd (call2 E ''predTF'' [A, Cl, r, Str learnFileRoot])
             (\<lambda>(p, temp). bnd (save_pixel E mapFile ''TF'' p X Y (i_idx L))
                (\<lambda>_. bnd (setcfg (\<lambda>c. c\<lparr>tfDef_alwaysRetrain := False\<rparr>))
                   (\<lambda>_. ret (L\<lparr>tfPred := p\<rparr>))))))
       (ret L)"

text \<open>Lines 302-305.\<close>

definition pixel_KM ::
  "env \<Rightarrow> string \<Rightarrow> val \<Rightarrow> val \<Rightarrow> val \<Rightarrow> val \<Rightarrow> val \<Rightarrow> val \<Rightarrow> val \<Rightarrow> val \<Rightarrow> map_locals \<Rightarrow> unit m" where
  "pixel_KM E mapFile X Y A Cl En Aorig r rorig L =
     ifc (\<lambda>c. kmDef_runKM c = True)
       (bnd (setcfg (\<lambda>c. c\<lparr>kmDef_plotKM := False\<rparr>))
          (\<lambda>_. bnd (call E ''runKMmain'' [A, Cl, En, r, Aorig, rorig])
             (\<lambda>v. bnd (store (kmPred L) (i_idx L) v)
                (\<lambda>_. save_pixel E mapFile ''KM'' (kmPred L) X Y (i_idx L)))))
       (ret ())"

text \<open>Lines 265-306: the body of the loop for one row \<open>r\<close> of the map.\<close>

definition map_pixel ::
  "env \<Rightarrow> string \<Rightarrow> val \<Rightarrow> val \<Rightarrow> val \<Rightarrow> val \<Rightarrow> val \<Rightarrow> val \<Rightarrow> val \<Rightarrow> val \<Rightarrow> string \<Rightarrow> val \<Rightarrow>
   map_locals \<Rightarrow> map_locals m" where
  "map_pixel E mapFile X Y Rx A Cl En Aorig YnormXind learnFileRoot r L =
     bnd (call2 E ''preProcessNormPredData'' [r, Rx, En, YnormXind, Num (type_flag L)])
       (\<lambda>(r, rorig).
     bnd (pixel_DNNTF E mapFile X Y Cl r (L\<lparr>type_flag := 1\<rparr>))
       (\<lambda>_.
     bnd (pixel_Keras E mapFile X Y Cl r (L\<lparr>type_flag := 1\<rparr>))
       (\<lambda>_.
     bnd (pixel_NN E mapFile X Y A Cl r (L\<lparr>type_flag := 1\<rparr>))
       (\<lambda>_.
     bnd (pixel_SVM E mapFile X Y A Cl En r (L\<lparr>type_flag := 1\<rparr>))
       (\<lambda>_.
     bnd (pixel_TF E mapFile X Y A Cl learnFileRoot r (L\<lparr>type_flag := 1\<rparr>))
       (\<lambda>L.
     bnd (pixel_KM E mapFile X Y A Cl En Aorig r rorig L)
       (\<lambda>_. ret (L\<lparr>i_idx := i_idx L + 1\<rparr>))))))))"

fun map_loop ::
  "env \<Rightarrow> string \<Rightarrow> val \<Rightarrow> val \<Rightarrow> val \<Rightarrow> val \<Rightarrow> val \<Rightarrow> val \<Rightarrow> val \<Rightarrow> val \<Rightarrow> string \<Rightarrow> val list \<Rightarrow>
   map_locals \<Rightarrow> map_locals m" where
  "map_loop E mapFile X Y Rx A Cl En Aorig YnormXind learnFileRoot [] L = ret L"
| "map_loop E mapFile X Y Rx A Cl En Aorig YnormXind learnFileRoot (r # rs) L =
     bnd (map_pixel E mapFile X Y Rx A Cl En Aorig YnormXind learnFileRoot r L)
       (\<lambda>L. map_loop E mapFile X Y Rx A Cl En Aorig YnormXind learnFileRoot rs L)"

text \<open>Lines 308-317: the arrays handed to the plotting service.\<close>

definition map_plots :: "env \<Rightarrow> val \<Rightarrow> val \<Rightarrow> map_locals \<Rightarrow> unit m" where
  "map_plots E X Y L =
     bnd (ifc (\<lambda>c. dnntfDef_plotMap c = True \<and> dnntfDef_runDNNTF c = True)
            (bnd (global E ''dnntfPred'')
               (\<lambda>arr. bnd (call E ''plotMaps'' [X, Y, arr, Str ''Deep Neural networks - tensorFlow''])
                         (\<lambda>_. ret ())))
            (ret ()))
       (\<lambda>_.
     bnd (ifc (\<lambda>c. nnDef_plotMap c = True \<and> nnDef_runNN c = True)
            (bnd (call E ''plotMaps'' [X, Y, nnPred L, Str ''Deep Neural networks - sklearn''])
               (\<lambda>_. ret ()))
            (ret ()))
       (\<lambda>_.
     bnd (ifc (\<lambda>c. svmDef_plotMap c = True \<and> svmDef_runSVM c = True)
            (bnd (call E ''plotMaps'' [X, Y, svmPred L, Str ''SVM'']) (\<lambda>_. ret ()))
            (ret ()))
       (\<lambda>_.
     bnd (ifc (\<lambda>c. tfDef_plotMap c = True \<and> tfDef_runTF c = True)
            (bnd (call E ''plotMaps'' [X, Y, tfPred L, Str ''TensorFlow'']) (\<lambda>_. ret ()))
            (ret ()))
       (\<lambda>_.
     ifc (\<lambda>c. kmDef_plotMap c = True \<and> kmDef_runKM c = True)
       (bnd (call E ''plotMaps'' [X, Y, kmPred L, Str ''K-Means Prediction'']) (\<lambda>_. ret ()))
       (ret ())))))"

text \<open>\<open>for r in R[:]\<close>: the rows of the map, or TypeError when \<open>R\<close> is not a sequence.\<close>

definition rows :: "val \<Rightarrow> (val list) m" where
  "rows R = (\<lambda>w. (iter (heap w) R, w))"

definition LearnPredictMap :: "env \<Rightarrow> string \<Rightarrow> string \<Rightarrow> unit m" where
  "LearnPredictMap E learnFile mapFile =
     bnd (call4 E ''readLearnFile'' [Str learnFile])
       (\<lambda>(En, Cl, A, YnormXind).
     bnd (call4 E ''readPredMap'' [Str mapFile])
       (\<lambda>(X, Y, R, Rx).
     bnd (map_init X)
       (\<lambda>L.
     bnd (call4 E ''preProcessNormLearningData'' [A, En, Cl, YnormXind, Num 0])
       (\<lambda>(A, Cl, En, Aorig).
     bnd (pyprint [Str '' Processing map...''])
       (\<lambda>_.
     bnd (map_train E A Cl En (splitext0 E learnFile) L)
       (\<lambda>L.
     bnd (rows R)
       (\<lambda>rs.
     bnd (map_loop E mapFile X Y Rx A Cl En Aorig YnormXind (splitext0 E learnFile) rs L)
       (\<lambda>L. map_plots E X Y L))))))))"

section \<open>Notions used in the statements\<close>

text \<open>
  \<open>frame R m\<close>: whatever \<open>m\<close> returns or raises, the world it leaves is related by \<open>R\<close> to
  the world it started from.
\<close>

definition frame :: "(world \<Rightarrow> world \<Rightarrow> bool) \<Rightarrow> 'a m \<Rightarrow> bool" where
  "frame R m = (\<forall>w. R w (snd (m w)))"

definition same_files :: "world \<Rightarrow> world \<Rightarrow> bool" where
  "same_files w w' = (files w' = files w)"

text \<open>What a run from \<open>w\<close> to \<open>w'\<close> has added to the log.\<close>

definition new_log :: "world \<Rightarrow> world \<Rightarrow> event list" where
  "new_log w w' = drop (length (log w)) (log w')"

fun call_names :: "event list \<Rightarrow> string list" where
  "call_names [] = []"
| "call_names (Print x # es) = call_names es"
| "call_names (Call n c a # es) = n # call_names es"

fun call_cfgs :: "event list \<Rightarrow> config list" where
  "call_cfgs [] = []"
| "call_cfgs (Print x # es) = call_cfgs es"
| "call_cfgs (Call n c a # es) = c # call_cfgs es"

text \<open>The answers that the calls of the service \<open>name\<close> recorded in a log have received.\<close>

fun answers :: "env \<Rightarrow> string \<Rightarrow> event list \<Rightarrow> val list" where
  "answers E name [] = []"
| "answers E name (Print x # es) = answers E name es"
| "answers E name (Call n c a # es) =
     (if n = name then (case ext E n c a of Inr v \<Rightarrow> [v] | Inl e \<Rightarrow> []) else [])
     @ answers E name es"

text \<open>The components of these answers, as tuple unpacking yields them.\<close>

definition pred_fields :: "env \<Rightarrow> (nat \<Rightarrow> val list option) \<Rightarrow> string \<Rightarrow> event list \<Rightarrow> val list" where
  "pred_fields E h name evs =
     concat (map (\<lambda>v. case iter h v of Inr xs \<Rightarrow> xs | Inl e \<Rightarrow> []) (answers E name evs))"

text \<open>
  The five flags that \<open>processSingleBatch\<close> writes.  \<open>cleared_from c c'\<close>: the configuration
  \<open>c'\<close> is \<open>c\<close> with some of these flags set to \<open>False\<close>.
\<close>

definition rest_batch :: "config \<Rightarrow> config" where
  "rest_batch c = c\<lparr>dnntfDef_alwaysRetrain := False, nnDef_alwaysRetrain := False,
     svmDef_alwaysRetrain := False, tfDef_tfalwaysRetrain := False, kmDef_plotKM := False\<rparr>"

definition cleared_from :: "config \<Rightarrow> config \<Rightarrow> bool" where
  "cleared_from c c' = (rest_batch c' = rest_batch c
     \<and> (dnntfDef_alwaysRetrain c' \<longrightarrow> dnntfDef_alwaysRetrain c)
     \<and> (nnDef_alwaysRetrain c' \<longrightarrow> nnDef_alwaysRetrain c)
     \<and> (svmDef_alwaysRetrain c' \<longrightarrow> svmDef_alwaysRetrain c)
     \<and> (tfDef_tfalwaysRetrain c' \<longrightarrow> tfDef_tfalwaysRetrain c)
     \<and> (kmDef_plotKM c' \<longrightarrow> kmDef_plotKM c))"

definition batch_rel :: "world \<Rightarrow> world \<Rightarrow> bool" where
  "batch_rel w w' = (heap w' = heap w \<and> next_ref w' = next_ref w
     \<and> cleared_from (cfg w) (cfg w')
     \<and> (\<exists>evs. log w' = log w @ evs \<and> (\<forall>c \<in> set (call_cfgs evs). cleared_from (cfg w) c)))"

text \<open>
  Each enabled family among DNN-TF, sklearn-NN, SVM and raw TensorFlow has its always-retrain
  flag off, and the K-Means plotting flag is off when K-Means is enabled.
\<close>

definition flags_off :: "config \<Rightarrow> bool" where
  "flags_off c = ((dnntfDef_runDNNTF c \<longrightarrow> \<not> dnntfDef_alwaysRetrain c)
     \<and> (nnDef_runNN c \<longrightarrow> \<not> nnDef_alwaysRetrain c)
     \<and> (svmDef_runSVM c \<longrightarrow> \<not> svmDef_alwaysRetrain c)
     \<and> (tfDef_runTF c \<longrightarrow> \<not> tfDef_tfalwaysRetrain c)
     \<and> (kmDef_runKM c \<longrightarrow> \<not> kmDef_plotKM c))"

text \<open>
  The fields that \<open>processSingleBatch\<close> puts after the file name, read off the log of the
  call: what the predictors have returned, family by family, in the order of the blocks of
  the function; raw TensorFlow adds the global \<open>tfAccur\<close>, K-Means contributes the single
  value that \<open>runKMmain\<close> returns.
\<close>

definition tfAccur_field :: "env \<Rightarrow> config \<Rightarrow> val list" where
  "tfAccur_field E c =
     (if tfDef_runTF c then (case globals E ''tfAccur'' of Some a \<Rightarrow> [a] | None \<Rightarrow> []) else [])"

definition batch_fields :: "env \<Rightarrow> world \<Rightarrow> event list \<Rightarrow> val list" where
  "batch_fields E w evs =
     pred_fields E (heap w) ''predDNNTF'' evs @ pred_fields E (heap w) ''predDNNTF2'' evs
     @ pred_fields E (heap w) ''predKeras'' evs
     @ pred_fields E (heap w) ''predNN'' evs
     @ pred_fields E (heap w) ''predSVM'' evs
     @ pred_fields E (heap w) ''predTF'' evs @ tfAccur_field E (cfg w)
     @ answers E ''runKMmain'' evs"

text \<open>
  The files whose processing has started, read off the log: \<open>processSingleBatch\<close> begins
  by printing the name of its file.  \<open>quiet\<close>: a run has printed no such line.
\<close>

definition processed_of :: "event \<Rightarrow> string list" where
  "processed_of e = (case e of
       Print [Str s, Str f] \<Rightarrow> if s = '' Processing file: '' then [f] else []
     | _ \<Rightarrow> [])"

definition processed :: "event list \<Rightarrow> string list" where
  "processed evs = concat (map processed_of evs)"

definition quiet :: "world \<Rightarrow> world \<Rightarrow> bool" where
  "quiet w w' = (\<exists>evs. log w' = log w @ evs \<and> processed evs = [])"

definition log_grows :: "world \<Rightarrow> world \<Rightarrow> bool" where
  "log_grows w w' = (\<exists>evs. log w' = log w @ evs)"

text \<open>
  A data row of a batch run: its first field is the name of a file that \<open>glob('*.txt')\<close>
  lists and that is not the training file.  \<open>disk_rows\<close>: the rows of a file on the disk
  that the processes of a pool share.  \<open>pool_inv\<close>: the summary file is what it was before
  the run, then the header, then data rows, and every task of the pool writes to this file.
\<close>

definition data_row :: "env \<Rightarrow> string \<Rightarrow> val list \<Rightarrow> bool" where
  "data_row E learnFile row = (case row of
       Str f # cells \<Rightarrow> f \<noteq> learnFile \<and> f \<in> set (glob E ''*.txt'')
     | _ \<Rightarrow> False)"

definition disk_rows :: "pool \<Rightarrow> string \<Rightarrow> val list list" where
  "disk_rows p name = (case disk p name of None \<Rightarrow> [] | Some rs \<Rightarrow> rs)"

definition task_ok :: "env \<Rightarrow> string \<Rightarrow> string \<Rightarrow> task \<Rightarrow> bool" where
  "task_ok E summary_filename learnFile t = (case t of (f, En, Cl, A, Aorig, Y, sf, lf) \<Rightarrow>
     f \<noteq> learnFile \<and> f \<in> set (glob E ''*.txt'') \<and> sf = summary_filename \<and> lf = learnFile)"

definition pool_inv :: "env \<Rightarrow> string \<Rightarrow> string \<Rightarrow> val list list \<Rightarrow> pool \<Rightarrow> bool" where
  "pool_inv E summary_filename learnFile before p =
     ((\<exists>data. disk_rows p summary_filename = before @ header E learnFile # data
              \<and> list_all (data_row E learnFile) data)
      \<and> list_all (task_ok E summary_filename learnFile) (queue p)
      \<and> list_all (\<lambda>x. case snd x of None \<Rightarrow> True
                                   | Some t \<Rightarrow> task_ok E summary_filename learnFile t) (workers p))"

text \<open>
  \<open>log_rel S\<close>: a run has changed nothing but the log, and has called services of \<open>S\<close>
  only.  \<open>calls\<close> are the service calls of a log, by name and arguments; \<open>calls_of name\<close>
  are the argument lists of the calls of one service.
\<close>

definition log_rel :: "string set \<Rightarrow> world \<Rightarrow> world \<Rightarrow> bool" where
  "log_rel S w w' = (\<exists>evs. w' = w\<lparr>log := log w @ evs\<rparr> \<and> set (call_names evs) \<subseteq> S)"

fun calls :: "event list \<Rightarrow> (string \<times> val list) list" where
  "calls [] = []"
| "calls (Print x # es) = calls es"
| "calls (Call n c a # es) = (n, a) # calls es"

definition calls_of :: "string \<Rightarrow> event list \<Rightarrow> val list list" where
  "calls_of name evs = map snd (filter (\<lambda>c. fst c = name) (calls evs))"

text \<open>
  What \<open>runPCA\<close> does up to the library call: the number of components it asks for and
  the events it logs; and what it does with the answer \<open>v\<close> of the library.
\<close>

definition pca_rest :: "env \<Rightarrow> val \<Rightarrow> val \<Rightarrow> val \<Rightarrow> unit m" where
  "pca_rest E En Cl v =
     bnd (unpack3 v) (\<lambda>(components, ratio, A_r).
     bnd (shape0 components)
       (\<lambda>k.
     bnd (print_scores ratio [0..<k])
       (\<lambda>_.
     bnd (pyprint [Str []])
       (\<lambda>_.
     ifc (\<lambda>c. plotDef_showPCAPlots c = True)
       (bnd (pyprint [Str '' Plotting Loadings and score plots... ''])
          (\<lambda>_. bnd (call E ''plotPCA'' [En, Cl, components, ratio, A_r]) (\<lambda>_. ret ())))
       (ret ())))))"

definition pca_n :: "world \<Rightarrow> val \<Rightarrow> int \<Rightarrow> val" where
  "pca_n w Cl k = Num (if pcaDef_customNumPCAComp (cfg w) then k
                       else int (length (remdups (elems (heap w) Cl))))"

definition pca_log :: "world \<Rightarrow> val \<Rightarrow> val \<Rightarrow> int \<Rightarrow> event list" where
  "pca_log w Cl A k =
     [Print [Str ''==========================================================================''],
      Print [Str '' Running PCA...''],
      Print [Str '' Number of unique identifiers in training data: '',
             Num (int (length (remdups (elems (heap w) Cl))))],
      Print [Str '' Number of Principal components: '', pca_n w Cl k],
      Call ''PCA'' (cfg w) [pca_n w Cl k, snapshot (heap w) A]]"

text \<open>
  For the PCA diagnostic in single-file mode.  \<open>other_calls\<close>: the calls of all services but
  the two of the diagnostic.  \<open>with_pca b w\<close>: the world \<open>w\<close> with the flag
  \<open>pcaDef.runPCA\<close> set to \<open>b\<close>.  \<open>pca_blind\<close>: no service looks at that flag.
  \<open>pca_eq\<close>: two worlds differ at most in that flag and in what the diagnostic has logged.
  \<open>insensitive\<close>: a computation that, run from two such worlds, returns the same and leaves
  two such worlds.
\<close>

definition other_calls :: "event list \<Rightarrow> (string \<times> val list) list" where
  "other_calls evs = filter (\<lambda>c. fst c \<noteq> ''PCA'' \<and> fst c \<noteq> ''plotPCA'') (calls evs)"

definition with_pca :: "bool \<Rightarrow> world \<Rightarrow> world" where
  "with_pca b w = w\<lparr>cfg := (cfg w)\<lparr>pcaDef_runPCA := b\<rparr>\<rparr>"

definition pca_blind :: "env \<Rightarrow> bool" where
  "pca_blind E = (\<forall>n c a b. ext E n (c\<lparr>pcaDef_runPCA := b\<rparr>) a = ext E n c a)"

definition pca_eq :: "world \<Rightarrow> world \<Rightarrow> bool" where
  "pca_eq w w' = ((cfg w')\<lparr>pcaDef_runPCA := False\<rparr> = (cfg w)\<lparr>pcaDef_runPCA := False\<rparr>
     \<and> heap w' = heap w \<and> next_ref w' = next_ref w \<and> files w' = files w
     \<and> other_calls (log w') = other_calls (log w))"

definition insensitive :: "'a m \<Rightarrow> bool" where
  "insensitive q = (\<forall>w w'. pca_eq w w' \<longrightarrow> fst (q w) = fst (q w') \<and> pca_eq (snd (q w)) (snd (q w')))"

text \<open>
  For map mode.  \<open>run_flags\<close>: the flags that decide which branches run; the orchestrator
  never writes them.  \<open>preds3\<close>: the three array names that the loop never rebinds.
\<close>

definition run_flags :: "config \<Rightarrow> bool \<times> bool \<times> bool option \<times> bool \<times> bool \<times> bool \<times> bool \<times> bool" where
  "run_flags c = (dnntfDef_runDNNTF c, dnntfDef_runSkflowDNNTF c, dnntfDef_runKeras c,
     kerasDef_runKeras c, nnDef_runNN c, svmDef_runSVM c, tfDef_runTF c, kmDef_runKM c)"

definition same_run :: "world \<Rightarrow> world \<Rightarrow> bool" where
  "same_run w w' = (run_flags (cfg w') = run_flags (cfg w))"

definition preds3 :: "map_locals \<Rightarrow> val \<times> val \<times> val" where
  "preds3 L = (nnPred L, svmPred L, kmPred L)"



section \<open>Concrete inputs\<close>

text \<open>
  A small environment on which the definitions can be run: a training file with three spectra
  and two distinct labels, a map of two pixels, and services that answer with fixed values
  (each predictor with a label of its own).
\<close>

definition ext0 :: "string \<Rightarrow> config \<Rightarrow> val list \<Rightarrow> error + val" where
  "ext0 name c args =
     (if name = ''readLearnFile'' then
        Inr (Seq [Seq [Num 100, Num 200], Seq [Num 1, Num 2, Num 1],
                  Seq [Seq [Num 3, Num 4], Seq [Num 5, Num 6], Seq [Num 7, Num 8]], Num 0])
      else if name = ''preProcessNormLearningData'' then
        (case args of [A, En, Cl, Y, t] \<Rightarrow> Inr (Seq [A, Cl, En, A]) | _ \<Rightarrow> Inl TypeError)
      else if name = ''readPredMap'' then
        Inr (Seq [Seq [Num 10, Num 11], Seq [Num 20, Num 21],
                  Seq [Seq [Num 9, Num 9], Seq [Num 8, Num 8]], Seq [Num 100, Num 200]])
      else if name = ''readPredFile'' then Inr (Seq [Seq [Num 9, Num 9], Seq [Num 100, Num 200]])
      else if name = ''preProcessNormPredData'' then
        (case args of r # rest \<Rightarrow> Inr (Seq [r, r]) | [] \<Rightarrow> Inl TypeError)
      else if name = ''predNN'' then Inr (Seq [Num 1, Num 90])
      else if name = ''predSVM'' then Inr (Seq [Num 2, Num 80])
      else if name = ''predDNNTF'' then Inr (Seq [Num 3, Num 70])
      else if name = ''predDNNTF2'' then Inr (Seq [Num 3, Num 70])
      else if name = ''predKeras'' then Inr (Seq [Num 4, Num 60])
      else if name = ''predTF'' then Inr (Seq [Seq [Num 6], Num 50])
      else if name = ''runKMmain'' then Inr (Num 5)
      else if name = ''PCA'' then
        (case args of [n, A] \<Rightarrow> Inr (Seq [Seq [Seq [Num 1, Num 0], Seq [Num 0, Num 1]],
                                             Seq [Num 60, Num 40], A])
                    | _ \<Rightarrow> Inl TypeError)
      else Inr (Seq [Num 0, Num 0]))"

definition env0 :: env where
  "env0 = \<lparr>ext = ext0,
           globals = (\<lambda>n. if n = ''model_keras'' then Some (Num 0)
                          else if n = ''tfAccur'' then Some (Num 99) else None),
           glob = (\<lambda>p. if p = ''*.txt'' then [''a.txt'', ''train.txt'', ''b.txt''] else []),
           splitext0 = takeWhile (\<lambda>ch. ch \<noteq> CHR ''.''),
           header = (\<lambda>lf. [Str ''Training File:'', Str lf])\<rparr>"

text \<open>Every family disabled; the flags that the orchestrator clears are still set.\<close>

definition cfg0 :: config where
  "cfg0 = \<lparr>dnntfDef_runDNNTF = False, dnntfDef_runSkflowDNNTF = False,
           dnntfDef_alwaysRetrain = True, dnntfDef_alwaysImprove = True, dnntfDef_plotMap = True,
           dnntfDef_runKeras = Some False, dnnDef_alwaysRetrain = None,
           kerasDef_runKeras = False,
           nnDef_runNN = False, nnDef_alwaysRetrain = True, nnDef_plotMap = True,
           svmDef_runSVM = False, svmDef_alwaysRetrain = True, svmDef_plotMap = True,
           tfDef_runTF = False, tfDef_tfalwaysRetrain = True, tfDef_alwaysRetrain = True,
           tfDef_plotMap = True,
           kmDef_runKM = False, kmDef_plotKM = True, kmDef_plotMap = True,
           pcaDef_runPCA = False, pcaDef_customNumPCAComp = False, pcaDef_numPCAcomponents = 1,
           plotDef_createTrainingDataPlot = False, plotDef_plotAllSpectra = False,
           plotDef_showPCAPlots = False,
           sysDef_multiProc = False, sysDef_numCores = 2\<rparr>"

definition world_of :: "config \<Rightarrow> world" where
  "world_of c = \<lparr>cfg = c, heap = (\<lambda>a. None), next_ref = 0, files = (\<lambda>n. None), log = []\<rparr>"

text \<open>The same environment, with a support vector machine whose prediction raises.\<close>

definition env_svm_fails :: env where
  "env_svm_fails = env0\<lparr>ext := (\<lambda>n c a. if n = ''predSVM'' then Inl (Raised ''predSVM'')
                                        else ext0 n c a)\<rparr>"

text \<open>The energy axis, the labels and the feature matrix of the training file above.\<close>

definition En0 :: val where
  "En0 = Seq [Num 100, Num 200]"

definition Cl0 :: val where
  "Cl0 = Seq [Num 1, Num 2, Num 1]"

definition A0 :: val where
  "A0 = Seq [Seq [Num 3, Num 4], Seq [Num 5, Num 6], Seq [Num 7, Num 8]]"

text \<open>
  Three configurations, and the processing of the file \<open>a.txt\<close> in batch mode from an empty
  world, with the summary file \<open>summary.csv\<close> and the training file \<open>train.txt\<close>.
\<close>

definition cfg_km :: config where
  "cfg_km = cfg0\<lparr>kmDef_runKM := True\<rparr>"

definition cfg_keras_nn :: config where
  "cfg_keras_nn = cfg0\<lparr>kerasDef_runKeras := True, nnDef_runNN := True\<rparr>"

definition cfg_all :: config where
  "cfg_all = cfg0\<lparr>dnntfDef_runDNNTF := True, kerasDef_runKeras := True, nnDef_runNN := True,
     svmDef_runSVM := True, tfDef_runTF := True, kmDef_runKM := True\<rparr>"

definition batch_a :: "env \<Rightarrow> config \<Rightarrow> (error + unit) \<times> world" where
  "batch_a E c = processSingleBatch E ''a.txt'' En0 Cl0 A0 A0 (Num 0) ''summary.csv'' ''train.txt''
                   (world_of c)"

text \<open>K-Means only, with the process pool.\<close>

definition cfg_km_par :: config where
  "cfg_km_par = cfg_km\<lparr>sysDef_multiProc := True\<rparr>"

text \<open>
  A run of the pool on the two files \<open>a.txt\<close> and \<open>b.txt\<close> with two workers: worker 0
  takes \<open>a.txt\<close>, worker 1 takes \<open>b.txt\<close>, worker 1 finishes first.
\<close>

definition world_hdr :: world where
  "world_hdr = \<lparr>cfg = cfg_km_par, heap = (\<lambda>a. None), next_ref = 0,
      files = (\<lambda>n. None)(''summary.csv'' \<mapsto> [[Str ''Training File:'', Str ''train.txt'']]),
      log = []\<rparr>"

definition task_a :: task where
  "task_a = (''a.txt'', En0, Cl0, A0, A0, Num 0, ''summary.csv'', ''train.txt'')"

definition task_b :: task where
  "task_b = (''b.txt'', En0, Cl0, A0, A0, Num 0, ''summary.csv'', ''train.txt'')"

definition pool0 :: pool where
  "pool0 = \<lparr>queue = [task_a, task_b], workers = [(world_hdr, None), (world_hdr, None)],
            disk = files world_hdr\<rparr>"

definition pool1 :: pool where
  "pool1 = pool0\<lparr>queue := [task_b], workers := (workers pool0)[0 := (world_hdr, Some task_a)]\<rparr>"

definition pool2 :: pool where
  "pool2 = pool1\<lparr>queue := [], workers := (workers pool1)[1 := (world_hdr, Some task_b)]\<rparr>"

definition pool3 :: pool where
  "pool3 = pool2\<lparr>workers := (workers pool2)
               [1 := (snd (run_task env0 task_b (world_hdr\<lparr>files := disk pool2\<rparr>)), None)],
             disk := files (snd (run_task env0 task_b (world_hdr\<lparr>files := disk pool2\<rparr>)))\<rparr>"

definition pool4 :: pool where
  "pool4 = pool3\<lparr>workers := (workers pool3)
               [0 := (snd (run_task env0 task_a (world_hdr\<lparr>files := disk pool3\<rparr>)), None)],
             disk := files (snd (run_task env0 task_a (world_hdr\<lparr>files := disk pool3\<rparr>)))\<rparr>"

text \<open>Single-file mode: sklearn-NN, SVM and K-Means enabled, PCA plots on.\<close>

definition cfg_file :: config where
  "cfg_file = cfg0\<lparr>nnDef_runNN := True, svmDef_runSVM := True, kmDef_runKM := True,
     plotDef_showPCAPlots := True\<rparr>"

text \<open>
  Map mode: the environment above has a map of two pixels, at (10, 20) and (11, 21); the next
  one has a map of the single pixel (10, 20).  Two configurations: raw TensorFlow with
  K-Means, and sklearn-NN with SVM; the plotting flags are on in both.
\<close>

definition env_1px :: env where
  "env_1px = env0\<lparr>ext := (\<lambda>n c a. if n = ''readPredMap''
      then Inr (Seq [Seq [Num 10], Seq [Num 20], Seq [Seq [Num 9, Num 9]], Seq [Num 100, Num 200]])
      else ext0 n c a)\<rparr>"

definition cfg_tf_km :: config where
  "cfg_tf_km = cfg0\<lparr>tfDef_runTF := True, kmDef_runKM := True\<rparr>"

definition cfg_nn_svm :: config where
  "cfg_nn_svm = cfg0\<lparr>nnDef_runNN := True, svmDef_runSVM := True\<rparr>"

text \<open>
  The coordinates and the energy axis of the two-pixel map, and the local variables of
  \<open>LearnPredictMap\<close> after line 245, after the training of sklearn-NN and SVM, and after
  two pixels.
\<close>

definition cfg_nn_svm_km :: config where
  "cfg_nn_svm_km = cfg0\<lparr>nnDef_runNN := True, svmDef_runSVM := True, kmDef_runKM := True\<rparr>"

definition X0 :: val where "X0 = Seq [Num 10, Num 11]"
definition Y0 :: val where "Y0 = Seq [Num 20, Num 21]"
definition Rx0 :: val where "Rx0 = Seq [Num 100, Num 200]"

definition locals0 :: map_locals where
  "locals0 = \<lparr>clf_nn = None, le_nn = None, clf_dnntf = None, le_dnntf = None,
              model_keras = None, le_keras = None, clf_svm = None, le_svm = None,
              svmPred = Ref 0, nnPred = Ref 0, tfPred = Ref 0, kmPred = Ref 0,
              type_flag = 0, i_idx = 0\<rparr>"

definition locals1 :: map_locals where
  "locals1 = locals0\<lparr>clf_nn := Some (Num 0), le_nn := Some (Num 0),
                      clf_svm := Some (Num 0), le_svm := Some (Num 0)\<rparr>"

definition locals2 :: map_locals where
  "locals2 = locals1\<lparr>type_flag := 1, i_idx := 2\<rparr>"








section \<open>The error monad and frame rules\<close>

lemma bnd_InrE:
  assumes "bnd m f w = (Inr y, w'')"
  obtains x w' where "m w = (Inr x, w')" and "f x w' = (Inr y, w'')"
  using assms by (auto simp: bnd_def split: prod.splits sum.splits)

lemma bnd_InlE:
  assumes "bnd m f w = (Inl e, w'')"
  obtains "m w = (Inl e, w'')" | x w' where "m w = (Inr x, w')" and "f x w' = (Inl e, w'')"
  using assms by (auto simp: bnd_def split: prod.splits sum.splits)

lemma frameD: "frame R m \<Longrightarrow> m w = (r, w') \<Longrightarrow> R w w'"
  by (auto simp: frame_def dest: spec[where x=w])

lemma frame_ret: "reflp R \<Longrightarrow> frame R (ret x)"
  by (simp add: frame_def ret_def reflp_def)

lemma frame_throw: "reflp R \<Longrightarrow> frame R (throw e)"
  by (simp add: frame_def throw_def reflp_def)

lemma frame_bnd:
  assumes tr: "transp R" and m: "frame R m" and f: "\<And>x. frame R (f x)"
  shows "frame R (bnd m f)"
  unfolding frame_def
proof
  fix w
  obtain r w' where mw: "m w = (r, w')" by (cases "m w")
  have 1: "R w w'" using frameD[OF m mw] .
  show "R w (snd (bnd m f w))"
  proof (cases r)
    case (Inl e)
    then show ?thesis using mw 1 by (simp add: bnd_def)
  next
    case (Inr x)
    have "R w' (snd (f x w'))" using f by (simp add: frame_def)
    with 1 have "R w (snd (f x w'))" using tr by (blast dest: transpD)
    then show ?thesis using mw Inr by (simp add: bnd_def)
  qed
qed

lemma frame_ifc: "frame R m1 \<Longrightarrow> frame R m2 \<Longrightarrow> frame R (ifc p m1 m2)"
  by (simp add: frame_def ifc_def)

lemma frame_if: "frame R m1 \<Longrightarrow> frame R m2 \<Longrightarrow> frame R (if b then m1 else m2)"
  by simp

lemma frame_case_prod: "(\<And>a b. frame R (f a b)) \<Longrightarrow> frame R (case_prod f p)"
  by (cases p) simp

lemma frame_unpack2: "reflp R \<Longrightarrow> frame R (unpack2 v)"
  by (auto simp: frame_def unpack2_def reflp_def split: sum.splits list.splits)

lemma frame_unpack3: "reflp R \<Longrightarrow> frame R (unpack3 v)"
  by (auto simp: frame_def unpack3_def reflp_def split: sum.splits list.splits)

lemma frame_unpack4: "reflp R \<Longrightarrow> frame R (unpack4 v)"
  by (auto simp: frame_def unpack4_def reflp_def split: sum.splits list.splits)

lemma frame_global: "reflp R \<Longrightarrow> frame R (global E n)"
  by (auto simp: global_def frame_ret frame_throw split: option.splits)

lemma frame_local_var: "reflp R \<Longrightarrow> frame R (local_var n v)"
  by (auto simp: local_var_def frame_ret frame_throw split: option.splits)

lemma frame_getc: "reflp R \<Longrightarrow> frame R (getc s)"
  by (simp add: frame_def getc_def reflp_def)

lemma frame_index: "reflp R \<Longrightarrow> frame R (index v i)"
  by (auto simp: frame_def index_def reflp_def split: sum.splits)

lemma frame_shape0: "reflp R \<Longrightarrow> frame R (shape0 v)"
  by (auto simp: frame_def shape0_def reflp_def split: val.splits option.splits)

lemmas frame_struct = frame_ifc frame_if frame_case_prod

lemma sf_reflp: "reflp same_files" by (simp add: same_files_def reflp_def)
lemma sf_transp: "transp same_files" by (simp add: same_files_def transp_def)
lemma sf_call: "frame same_files (call E n args)"
  by (simp add: frame_def call_def same_files_def Let_def)
lemma sf_setcfg: "frame same_files (setcfg u)"
  by (simp add: frame_def setcfg_def same_files_def)
lemma sf_print: "frame same_files (pyprint u)"
  by (simp add: frame_def pyprint_def same_files_def)

lemmas sf_rules = frame_bnd[OF sf_transp] frame_ret[OF sf_reflp] frame_throw[OF sf_reflp]
  frame_unpack2[OF sf_reflp] frame_unpack4[OF sf_reflp] frame_global[OF sf_reflp]
  frame_struct sf_call sf_setcfg sf_print

lemmas batch_defs = batch_row_def batch_DNNTF_def batch_Keras_def batch_NN_def batch_SVM_def
  batch_TF_def batch_KM_def call2_def call4_def

lemma sf_batch_row: "frame same_files (batch_row E f En Cl A Aorig Y lf)"
  unfolding batch_defs by (intro sf_rules)

lemma cleared_from_refl: "cleared_from c c"
  by (simp add: cleared_from_def)

lemma cleared_from_trans: "cleared_from a b \<Longrightarrow> cleared_from b c \<Longrightarrow> cleared_from a c"
  by (simp add: cleared_from_def)

lemma br_reflp: "reflp batch_rel"
  by (simp add: reflp_def batch_rel_def cleared_from_refl)

lemma call_cfgs_append: "call_cfgs (xs @ ys) = call_cfgs xs @ call_cfgs ys"
  by (induction xs rule: call_cfgs.induct) auto

lemma br_transp: "transp batch_rel"
proof (rule transpI)
  fix a b c assume ab: "batch_rel a b" and bc: "batch_rel b c"
  from ab obtain e1 where e1: "log b = log a @ e1" "\<forall>x \<in> set (call_cfgs e1). cleared_from (cfg a) x"
    by (auto simp: batch_rel_def)
  from bc obtain e2 where e2: "log c = log b @ e2" "\<forall>x \<in> set (call_cfgs e2). cleared_from (cfg b) x"
    by (auto simp: batch_rel_def)
  have cab: "cleared_from (cfg a) (cfg b)" using ab by (simp add: batch_rel_def)
  have "log c = log a @ (e1 @ e2)" using e1 e2 by simp
  moreover have "\<forall>x \<in> set (call_cfgs (e1 @ e2)). cleared_from (cfg a) x"
    using e1 e2 cab by (auto simp: call_cfgs_append intro: cleared_from_trans)
  ultimately have "\<exists>evs. log c = log a @ evs \<and> (\<forall>x \<in> set (call_cfgs evs). cleared_from (cfg a) x)"
    by blast
  moreover have "cleared_from (cfg a) (cfg c)"
    using ab bc by (auto simp: batch_rel_def intro: cleared_from_trans)
  ultimately show "batch_rel a c" using ab bc by (simp add: batch_rel_def)
qed

lemma br_call: "frame batch_rel (call E n args)"
  by (simp add: frame_def call_def batch_rel_def Let_def cleared_from_refl)

lemma br_print: "frame batch_rel (pyprint u)"
  by (simp add: frame_def pyprint_def batch_rel_def cleared_from_refl)

lemma br_setcfg:
  "frame batch_rel (setcfg (\<lambda>c. c\<lparr>dnntfDef_alwaysRetrain := False\<rparr>))"
  "frame batch_rel (setcfg (\<lambda>c. c\<lparr>nnDef_alwaysRetrain := False\<rparr>))"
  "frame batch_rel (setcfg (\<lambda>c. c\<lparr>svmDef_alwaysRetrain := False\<rparr>))"
  "frame batch_rel (setcfg (\<lambda>c. c\<lparr>tfDef_tfalwaysRetrain := False\<rparr>))"
  "frame batch_rel (setcfg (\<lambda>c. c\<lparr>kmDef_plotKM := False\<rparr>))"
  by (simp_all add: frame_def setcfg_def batch_rel_def cleared_from_def rest_batch_def)

lemma br_append_row: "frame batch_rel (append_row n r)"
  by (simp add: frame_def append_row_def batch_rel_def cleared_from_refl)

lemmas br_rules = frame_bnd[OF br_transp] frame_ret[OF br_reflp] frame_throw[OF br_reflp]
  frame_unpack2[OF br_reflp] frame_unpack4[OF br_reflp] frame_global[OF br_reflp]
  frame_struct br_call br_setcfg br_print br_append_row

lemma br_batch_row: "frame batch_rel (batch_row E f En Cl A Aorig Y lf)"
  unfolding batch_defs by (intro br_rules)

lemma br_processSingleBatch: "frame batch_rel (processSingleBatch E f En Cl A Aorig Y sf lf)"
  unfolding processSingleBatch_def by (intro br_rules br_batch_row)

lemma call_names_append: "call_names (xs @ ys) = call_names xs @ call_names ys"
  by (induction xs rule: call_names.induct) auto

lemma answers_append: "answers E n (xs @ ys) = answers E n xs @ answers E n ys"
  by (induction xs rule: call_names.induct) auto

lemma answers_absent: "n \<notin> set (call_names evs) \<Longrightarrow> answers E n evs = []"
  by (induction evs rule: call_names.induct) auto

lemma pred_fields_append: "pred_fields E h n (xs @ ys) = pred_fields E h n xs @ pred_fields E h n ys"
  by (simp add: pred_fields_def answers_append)

lemma pred_fields_absent: "n \<notin> set (call_names evs) \<Longrightarrow> pred_fields E h n evs = []"
  by (simp add: pred_fields_def answers_absent)

lemmas prim_defs = bnd_def ret_def throw_def ifc_def setcfg_def call_def call2_def global_def
  unpack2_def Let_def

lemma batch_NN_Inr:
  assumes "batch_NN E A Cl R root row w = (Inr row', w')"
  shows "\<exists>evs. log w' = log w @ evs
     \<and> set (call_names evs) \<subseteq> {''trainNN'', ''predNN''}
     \<and> row' = row @ pred_fields E (heap w) ''predNN'' evs
     \<and> length (pred_fields E (heap w) ''predNN'' evs) = (if nnDef_runNN (cfg w) then 2 else 0)
     \<and> (nnDef_runNN (cfg w) \<longrightarrow> \<not> nnDef_alwaysRetrain (cfg w'))"
  using assms unfolding batch_NN_def prim_defs
  by (auto simp: pred_fields_def split: if_splits sum.splits prod.splits list.splits)


section \<open>Batch mode: a failed file leaves no row\<close>

text \<open>
  C6.  When the processing of a file raises, whether in the loader, in the preprocessing or in
  a model adapter, the summary files are what they were before: no row is appended, not even
  a partial one with the predictions of the models that had succeeded.
\<close>

theorem C6_failed_file_leaves_no_row:
  assumes "processSingleBatch E f En Cl A Aorig YnormXind summary_filename learnFile w = (Inl e, w')"
  shows "files w' = files w"
  using assms unfolding processSingleBatch_def
proof (elim bnd_InlE)
  assume "batch_row E f En Cl A Aorig YnormXind learnFile w = (Inl e, w')"
  from frameD[OF sf_batch_row this] show ?thesis by (simp add: same_files_def)
next
  fix x w1 assume "append_row summary_filename x w1 = (Inl e, w')"
  then show ?thesis by (simp add: append_row_def)
qed

lemmas eval_defs = processSingleBatch_def batch_row_def batch_DNNTF_def batch_Keras_def
  batch_NN_def batch_SVM_def batch_TF_def batch_KM_def call2_def call3_def call4_def bnd_def
  ret_def throw_def ifc_def setcfg_def getc_def call_def global_def local_var_def unpack2_def
  unpack3_def unpack4_def Let_def pyprint_def append_row_def rows_of_def iter_def snapshot_def
  ext0_def env0_def cfg0_def world_of_def En0_def Cl0_def A0_def cfg_km_def cfg_keras_nn_def
  cfg_all_def batch_a_def

theorem C6_witness:
  "fst (processSingleBatch env_svm_fails ''a.txt'' En0 Cl0 A0 A0 (Num 0) ''summary.csv'' ''train.txt''
          (world_of (cfg0\<lparr>nnDef_runNN := True, svmDef_runSVM := True\<rparr>)))
     = Inl (Raised ''predSVM'')
   \<and> files (snd (processSingleBatch env_svm_fails ''a.txt'' En0 Cl0 A0 A0 (Num 0) ''summary.csv''
          ''train.txt'' (world_of (cfg0\<lparr>nnDef_runNN := True, svmDef_runSVM := True\<rparr>))))
     = files (world_of (cfg0\<lparr>nnDef_runNN := True, svmDef_runSVM := True\<rparr>))"
proof -
  let ?w = "world_of (cfg0\<lparr>nnDef_runNN := True, svmDef_runSVM := True\<rparr>)"
  let ?run = "processSingleBatch env_svm_fails ''a.txt'' En0 Cl0 A0 A0 (Num 0) ''summary.csv''
                ''train.txt'' ?w"
  have 1: "fst ?run = Inl (Raised ''predSVM'')"
    by (simp add: eval_defs env_svm_fails_def)
  then have 2: "?run = (Inl (Raised ''predSVM''), snd ?run)"
    by (simp add: prod_eq_iff)
  from C6_failed_file_leaves_no_row[OF 2] 1 show ?thesis by simp
qed

section \<open>Batch mode: what one call of \<open>processSingleBatch\<close> does\<close>

lemma pred_fields_sub: "set (call_names evs) \<subseteq> S \<Longrightarrow> n \<notin> S \<Longrightarrow> pred_fields E h n evs = []"
  by (rule pred_fields_absent) auto

lemma answers_sub: "set (call_names evs) \<subseteq> S \<Longrightarrow> n \<notin> S \<Longrightarrow> answers E n evs = []"
  by (rule answers_absent) auto

lemma batch_DNNTF_Inr:
  assumes "batch_DNNTF E A Cl R root row w = (Inr row', w')"
  shows "\<exists>evs. log w' = log w @ evs
     \<and> set (call_names evs) \<subseteq> {''trainDNNTF'', ''predDNNTF'', ''trainDNNTF2'', ''predDNNTF2''}
     \<and> row' = row @ pred_fields E (heap w) ''predDNNTF'' evs @ pred_fields E (heap w) ''predDNNTF2'' evs
     \<and> length (pred_fields E (heap w) ''predDNNTF'' evs @ pred_fields E (heap w) ''predDNNTF2'' evs)
         = (if dnntfDef_runDNNTF (cfg w) then 2 else 0)
     \<and> (dnntfDef_runDNNTF (cfg w) \<longrightarrow> \<not> dnntfDef_alwaysRetrain (cfg w'))"
  using assms unfolding batch_DNNTF_def prim_defs
  by (auto simp: pred_fields_def split: if_splits sum.splits prod.splits list.splits)

lemma batch_Keras_Inr:
  assumes "batch_Keras E En A Cl R root row w = (Inr row', w')"
  shows "\<exists>evs. log w' = log w @ evs
     \<and> set (call_names evs) \<subseteq> {''trainKeras'', ''predKeras''}
     \<and> row' = row @ pred_fields E (heap w) ''predKeras'' evs
     \<and> length (pred_fields E (heap w) ''predKeras'' evs) = (if kerasDef_runKeras (cfg w) then 2 else 0)"
  using assms unfolding batch_Keras_def prim_defs
  by (auto simp: pred_fields_def split: if_splits sum.splits prod.splits list.splits option.splits)

lemma batch_SVM_Inr:
  assumes "batch_SVM E En A Cl R root row w = (Inr row', w')"
  shows "\<exists>evs. log w' = log w @ evs
     \<and> set (call_names evs) \<subseteq> {''trainSVM'', ''predSVM''}
     \<and> row' = row @ pred_fields E (heap w) ''predSVM'' evs
     \<and> length (pred_fields E (heap w) ''predSVM'' evs) = (if svmDef_runSVM (cfg w) then 2 else 0)
     \<and> (svmDef_runSVM (cfg w) \<longrightarrow> \<not> svmDef_alwaysRetrain (cfg w'))"
  using assms unfolding batch_SVM_def prim_defs
  by (auto simp: pred_fields_def split: if_splits sum.splits prod.splits list.splits)

lemma batch_TF_Inr:
  assumes "batch_TF E A Cl R root row w = (Inr row', w')"
  shows "\<exists>evs. log w' = log w @ evs
     \<and> set (call_names evs) \<subseteq> {''trainTF'', ''predTF''}
     \<and> row' = row @ pred_fields E (heap w) ''predTF'' evs @ tfAccur_field E (cfg w)
     \<and> length (pred_fields E (heap w) ''predTF'' evs @ tfAccur_field E (cfg w))
         = (if tfDef_runTF (cfg w) then 3 else 0)
     \<and> (tfDef_runTF (cfg w) \<longrightarrow> \<not> tfDef_tfalwaysRetrain (cfg w'))"
  using assms unfolding batch_TF_def prim_defs
  by (auto simp: pred_fields_def tfAccur_field_def
           split: if_splits sum.splits prod.splits list.splits option.splits)

lemma batch_KM_Inr:
  assumes "batch_KM E En A Cl R Aorig Rorig row w = (Inr row', w')"
  shows "\<exists>evs. log w' = log w @ evs
     \<and> set (call_names evs) \<subseteq> {''runKMmain''}
     \<and> row' = row @ answers E ''runKMmain'' evs
     \<and> length (answers E ''runKMmain'' evs) = (if kmDef_runKM (cfg w) then 1 else 0)
     \<and> (kmDef_runKM (cfg w) \<longrightarrow> \<not> kmDef_plotKM (cfg w'))"
  using assms unfolding batch_KM_def prim_defs
  by (auto split: if_splits sum.splits prod.splits list.splits)

lemma call2_Inr:
  assumes "call2 E n args w = (Inr x, w')"
  shows "\<exists>evs. log w' = log w @ evs \<and> set (call_names evs) \<subseteq> {n}"
  using assms unfolding prim_defs
  by (auto split: if_splits sum.splits prod.splits list.splits)

lemma cleared_from_run:
  assumes "cleared_from c c'"
  shows "dnntfDef_runDNNTF c' = dnntfDef_runDNNTF c" "kerasDef_runKeras c' = kerasDef_runKeras c"
    "nnDef_runNN c' = nnDef_runNN c" "svmDef_runSVM c' = svmDef_runSVM c"
    "tfDef_runTF c' = tfDef_runTF c" "kmDef_runKM c' = kmDef_runKM c"
proof -
  have e: "rest_batch c' = rest_batch c" using assms by (simp add: cleared_from_def)
  show "dnntfDef_runDNNTF c' = dnntfDef_runDNNTF c"
    using arg_cong[OF e, of dnntfDef_runDNNTF] by (simp add: rest_batch_def)
  show "kerasDef_runKeras c' = kerasDef_runKeras c"
    using arg_cong[OF e, of kerasDef_runKeras] by (simp add: rest_batch_def)
  show "nnDef_runNN c' = nnDef_runNN c"
    using arg_cong[OF e, of nnDef_runNN] by (simp add: rest_batch_def)
  show "svmDef_runSVM c' = svmDef_runSVM c"
    using arg_cong[OF e, of svmDef_runSVM] by (simp add: rest_batch_def)
  show "tfDef_runTF c' = tfDef_runTF c"
    using arg_cong[OF e, of tfDef_runTF] by (simp add: rest_batch_def)
  show "kmDef_runKM c' = kmDef_runKM c"
    using arg_cong[OF e, of kmDef_runKM] by (simp add: rest_batch_def)
qed

lemma cleared_from_off:
  assumes "cleared_from c c'"
  shows "\<not> dnntfDef_alwaysRetrain c \<Longrightarrow> \<not> dnntfDef_alwaysRetrain c'"
    "\<not> nnDef_alwaysRetrain c \<Longrightarrow> \<not> nnDef_alwaysRetrain c'"
    "\<not> svmDef_alwaysRetrain c \<Longrightarrow> \<not> svmDef_alwaysRetrain c'"
    "\<not> tfDef_tfalwaysRetrain c \<Longrightarrow> \<not> tfDef_tfalwaysRetrain c'"
    "\<not> kmDef_plotKM c \<Longrightarrow> \<not> kmDef_plotKM c'"
  using assms by (auto simp: cleared_from_def)

lemma br_blocks:
  "frame batch_rel (batch_DNNTF E A Cl R root row)"
  "frame batch_rel (batch_Keras E En A Cl R root row)"
  "frame batch_rel (batch_NN E A Cl R root row)"
  "frame batch_rel (batch_SVM E En A Cl R root row)"
  "frame batch_rel (batch_TF E A Cl R root row)"
  "frame batch_rel (batch_KM E En A Cl R Aorig Rorig row)"
  "frame batch_rel (call2 E n args)"
  unfolding batch_defs by (intro br_rules)+

lemma batch_relD:
  assumes "batch_rel w w'"
  shows "heap w' = heap w" "cleared_from (cfg w) (cfg w')"
  using assms by (auto simp: batch_rel_def)

lemma batch_rel_trans: "batch_rel a b \<Longrightarrow> batch_rel b c \<Longrightarrow> batch_rel a c"
  using br_transp by (blast dest: transpD)

lemma batch_row_Inr:
  assumes run: "batch_row E f En Cl A Aorig Y lf w = (Inr row, w')"
  shows "row = Str f # batch_fields E w (new_log w w')
    \<and> length (pred_fields E (heap w) ''predDNNTF'' (new_log w w')
               @ pred_fields E (heap w) ''predDNNTF2'' (new_log w w'))
        = (if dnntfDef_runDNNTF (cfg w) then 2 else 0)
    \<and> length (pred_fields E (heap w) ''predKeras'' (new_log w w'))
        = (if kerasDef_runKeras (cfg w) then 2 else 0)
    \<and> length (pred_fields E (heap w) ''predNN'' (new_log w w'))
        = (if nnDef_runNN (cfg w) then 2 else 0)
    \<and> length (pred_fields E (heap w) ''predSVM'' (new_log w w'))
        = (if svmDef_runSVM (cfg w) then 2 else 0)
    \<and> length (pred_fields E (heap w) ''predTF'' (new_log w w') @ tfAccur_field E (cfg w))
        = (if tfDef_runTF (cfg w) then 3 else 0)
    \<and> length (answers E ''runKMmain'' (new_log w w')) = (if kmDef_runKM (cfg w) then 1 else 0)
    \<and> flags_off (cfg w')"
proof -
  obtain u1 w1 x2 w2 x3 w3 r4 w4 r5 w5 r6 w6 r7 w7 r8 w8 where
    s1: "pyprint [Str '' Processing file: '', Str f] w = (Inr u1, w1)" and
    s2: "call2 E ''readPredFile'' [Str f] w1 = (Inr x2, w2)" and
    s3: "call2 E ''preProcessNormPredData'' [fst x2, snd x2, En, Y, Num 0] w2 = (Inr x3, w3)" and
    s4: "batch_DNNTF E A Cl (fst x3) (splitext0 E lf) [Str f] w3 = (Inr r4, w4)" and
    s5: "batch_Keras E En A Cl (fst x3) (splitext0 E lf) r4 w4 = (Inr r5, w5)" and
    s6: "batch_NN E A Cl (fst x3) (splitext0 E lf) r5 w5 = (Inr r6, w6)" and
    s7: "batch_SVM E En A Cl (fst x3) (splitext0 E lf) r6 w6 = (Inr r7, w7)" and
    s8: "batch_TF E A Cl (fst x3) (splitext0 E lf) r7 w7 = (Inr r8, w8)" and
    s9: "batch_KM E En A Cl (fst x3) Aorig (snd x3) r8 w8 = (Inr row, w')"
    using run unfolding batch_row_def split_def by (elim bnd_InrE) blast
  have l1: "log w1 = log w @ [Print [Str '' Processing file: '', Str f]]"
    and b1: "batch_rel w w1"
    using s1 frameD[OF br_print s1] by (auto simp: pyprint_def)
  have b2: "batch_rel w1 w2" and b3: "batch_rel w2 w3" and b4: "batch_rel w3 w4"
    and b5: "batch_rel w4 w5" and b6: "batch_rel w5 w6" and b7: "batch_rel w6 w7"
    and b8: "batch_rel w7 w8" and b9: "batch_rel w8 w'"
    using frameD[OF br_blocks(7) s2] frameD[OF br_blocks(7) s3] frameD[OF br_blocks(1) s4]
      frameD[OF br_blocks(2) s5] frameD[OF br_blocks(3) s6] frameD[OF br_blocks(4) s7]
      frameD[OF br_blocks(5) s8] frameD[OF br_blocks(6) s9] by blast+
  have c3: "batch_rel w w3" using b1 b2 b3 by (blast intro: batch_rel_trans)
  have c4: "batch_rel w w4" using c3 b4 by (blast intro: batch_rel_trans)
  have c5: "batch_rel w w5" using c4 b5 by (blast intro: batch_rel_trans)
  have c6: "batch_rel w w6" using c5 b6 by (blast intro: batch_rel_trans)
  have c7: "batch_rel w w7" using c6 b7 by (blast intro: batch_rel_trans)
  have c8: "batch_rel w w8" using c7 b8 by (blast intro: batch_rel_trans)
  have d4: "batch_rel w4 w'" using b5 b6 b7 b8 b9 by (blast intro: batch_rel_trans)
  have d6: "batch_rel w6 w'" using b7 b8 b9 by (blast intro: batch_rel_trans)
  have d7: "batch_rel w7 w'" using b8 b9 by (blast intro: batch_rel_trans)
  have d8: "batch_rel w8 w'" using b9 .
  note hp = batch_relD(1)[OF c3] batch_relD(1)[OF c4] batch_relD(1)[OF c5] batch_relD(1)[OF c6]
    batch_relD(1)[OF c7] batch_relD(1)[OF c8]
  note rf = cleared_from_run[OF batch_relD(2)[OF c3]] cleared_from_run[OF batch_relD(2)[OF c4]]
    cleared_from_run[OF batch_relD(2)[OF c5]] cleared_from_run[OF batch_relD(2)[OF c6]]
    cleared_from_run[OF batch_relD(2)[OF c7]] cleared_from_run[OF batch_relD(2)[OF c8]]
  obtain e2 where e2: "log w2 = log w1 @ e2" "set (call_names e2) \<subseteq> {''readPredFile''}"
    using call2_Inr[OF s2] by blast
  obtain e3 where e3: "log w3 = log w2 @ e3" "set (call_names e3) \<subseteq> {''preProcessNormPredData''}"
    using call2_Inr[OF s3] by blast
  obtain e4 where e4: "log w4 = log w3 @ e4"
      "set (call_names e4) \<subseteq> {''trainDNNTF'', ''predDNNTF'', ''trainDNNTF2'', ''predDNNTF2''}"
      "r4 = [Str f] @ pred_fields E (heap w) ''predDNNTF'' e4 @ pred_fields E (heap w) ''predDNNTF2'' e4"
      "length (pred_fields E (heap w) ''predDNNTF'' e4 @ pred_fields E (heap w) ''predDNNTF2'' e4)
         = (if dnntfDef_runDNNTF (cfg w) then 2 else 0)"
      "dnntfDef_runDNNTF (cfg w) \<longrightarrow> \<not> dnntfDef_alwaysRetrain (cfg w4)"
    using batch_DNNTF_Inr[OF s4] unfolding hp rf by blast
  obtain e5 where e5: "log w5 = log w4 @ e5"
      "set (call_names e5) \<subseteq> {''trainKeras'', ''predKeras''}"
      "r5 = r4 @ pred_fields E (heap w) ''predKeras'' e5"
      "length (pred_fields E (heap w) ''predKeras'' e5) = (if kerasDef_runKeras (cfg w) then 2 else 0)"
    using batch_Keras_Inr[OF s5] unfolding hp rf by blast
  obtain e6 where e6: "log w6 = log w5 @ e6"
      "set (call_names e6) \<subseteq> {''trainNN'', ''predNN''}"
      "r6 = r5 @ pred_fields E (heap w) ''predNN'' e6"
      "length (pred_fields E (heap w) ''predNN'' e6) = (if nnDef_runNN (cfg w) then 2 else 0)"
      "nnDef_runNN (cfg w) \<longrightarrow> \<not> nnDef_alwaysRetrain (cfg w6)"
    using batch_NN_Inr[OF s6] unfolding hp rf by blast
  obtain e7 where e7: "log w7 = log w6 @ e7"
      "set (call_names e7) \<subseteq> {''trainSVM'', ''predSVM''}"
      "r7 = r6 @ pred_fields E (heap w) ''predSVM'' e7"
      "length (pred_fields E (heap w) ''predSVM'' e7) = (if svmDef_runSVM (cfg w) then 2 else 0)"
      "svmDef_runSVM (cfg w) \<longrightarrow> \<not> svmDef_alwaysRetrain (cfg w7)"
    using batch_SVM_Inr[OF s7] unfolding hp rf by blast
  obtain e8 where e8: "log w8 = log w7 @ e8"
      "set (call_names e8) \<subseteq> {''trainTF'', ''predTF''}"
      "r8 = r7 @ pred_fields E (heap w) ''predTF'' e8 @ tfAccur_field E (cfg w7)"
      "length (pred_fields E (heap w) ''predTF'' e8 @ tfAccur_field E (cfg w7))
         = (if tfDef_runTF (cfg w) then 3 else 0)"
      "tfDef_runTF (cfg w) \<longrightarrow> \<not> tfDef_tfalwaysRetrain (cfg w8)"
    using batch_TF_Inr[OF s8] unfolding hp rf by blast
  obtain e9 where e9: "log w' = log w8 @ e9"
      "set (call_names e9) \<subseteq> {''runKMmain''}"
      "row = r8 @ answers E ''runKMmain'' e9"
      "length (answers E ''runKMmain'' e9) = (if kmDef_runKM (cfg w) then 1 else 0)"
      "kmDef_runKM (cfg w) \<longrightarrow> \<not> kmDef_plotKM (cfg w')"
    using batch_KM_Inr[OF s9] unfolding hp rf by blast
  have tfa: "tfAccur_field E (cfg w7) = tfAccur_field E (cfg w)"
    by (simp add: tfAccur_field_def rf)
  have nl: "new_log w w' = Print [Str '' Processing file: '', Str f] # e2 @ e3 @ e4 @ e5 @ e6 @ e7 @ e8 @ e9"
    by (simp add: new_log_def l1 e2 e3 e4 e5 e6 e7 e8 e9)
  note subs = e2(2) e3(2) e4(2) e5(2) e6(2) e7(2) e8(2) e9(2)
  have pf: "pred_fields E (heap w) n (Print x # es) = pred_fields E (heap w) n es" for n x es
    by (simp add: pred_fields_def)
  have f1: "pred_fields E (heap w) ''predDNNTF'' (new_log w w') = pred_fields E (heap w) ''predDNNTF'' e4"
    unfolding nl pf pred_fields_append
    by (simp add: subs[THEN pred_fields_sub])
  have f1': "pred_fields E (heap w) ''predDNNTF2'' (new_log w w') = pred_fields E (heap w) ''predDNNTF2'' e4"
    unfolding nl pf pred_fields_append
    by (simp add: subs[THEN pred_fields_sub])
  have f2: "pred_fields E (heap w) ''predKeras'' (new_log w w') = pred_fields E (heap w) ''predKeras'' e5"
    unfolding nl pf pred_fields_append
    by (simp add: subs[THEN pred_fields_sub])
  have f3: "pred_fields E (heap w) ''predNN'' (new_log w w') = pred_fields E (heap w) ''predNN'' e6"
    unfolding nl pf pred_fields_append
    by (simp add: subs[THEN pred_fields_sub])
  have f4: "pred_fields E (heap w) ''predSVM'' (new_log w w') = pred_fields E (heap w) ''predSVM'' e7"
    unfolding nl pf pred_fields_append
    by (simp add: subs[THEN pred_fields_sub])
  have f5: "pred_fields E (heap w) ''predTF'' (new_log w w') = pred_fields E (heap w) ''predTF'' e8"
    unfolding nl pf pred_fields_append
    by (simp add: subs[THEN pred_fields_sub])
  have f6: "answers E ''runKMmain'' (new_log w w') = answers E ''runKMmain'' e9"
    unfolding nl answers.simps answers_append
    by (simp add: subs[THEN answers_sub])
  have row: "row = Str f # batch_fields E w (new_log w w')"
    unfolding batch_fields_def f1 f1' f2 f3 f4 f5 f6
    by (simp add: e9(3) e8(3) e7(3) e6(3) e5(3) e4(3) tfa)
  have off: "flags_off (cfg w')"
    unfolding flags_off_def
    using e4(5) e6(5) e7(5) e8(5) e9(5) cleared_from_off[OF batch_relD(2)[OF d4]]
      cleared_from_off[OF batch_relD(2)[OF d6]] cleared_from_off[OF batch_relD(2)[OF d7]]
      cleared_from_off[OF batch_relD(2)[OF d8]]
      cleared_from_run[OF batch_relD(2)[OF batch_rel_trans[OF c8 b9]]]
    by auto
  show ?thesis
    unfolding f1 f1' f2 f3 f4 f5 f6
    using row off e4(4) e5(4) e6(4) e7(4) e8(4) e9(4) by (simp add: tfa)
qed

section \<open>Batch mode: the layout of a summary row\<close>

lemma append_row_Inr:
  assumes "append_row n row w = (r, w')"
  shows "r = Inr ()" "files w' = (files w)(n \<mapsto> rows_of w n @ [row])" "log w' = log w"
    "cfg w' = cfg w" "heap w' = heap w"
  using assms by (auto simp: append_row_def)

text \<open>
  C1 (as amended).  When the processing of a file returns, it has appended exactly one row
  to the summary file: the file name, then the fields of the enabled families in the order
  of the blocks of the function, which is DNN-TF, Keras, sklearn-NN, SVM, raw TensorFlow,
  K-Means.  DNN-TF, Keras, sklearn-NN and SVM contribute two fields each (label and
  confidence), raw TensorFlow three (label, confidence and the accuracy \<open>tfAccur\<close>), K-Means
  one (its prediction).  The row has one field for the name plus these.
\<close>

theorem C1_row_layout:
  assumes "processSingleBatch E f En Cl A Aorig YnormXind summary_filename learnFile w = (Inr u, w')"
  shows "files w' = (files w)(summary_filename \<mapsto>
             rows_of w summary_filename @ [Str f # batch_fields E w (new_log w w')])
    \<and> length (pred_fields E (heap w) ''predDNNTF'' (new_log w w')
               @ pred_fields E (heap w) ''predDNNTF2'' (new_log w w'))
        = (if dnntfDef_runDNNTF (cfg w) then 2 else 0)
    \<and> length (pred_fields E (heap w) ''predKeras'' (new_log w w'))
        = (if kerasDef_runKeras (cfg w) then 2 else 0)
    \<and> length (pred_fields E (heap w) ''predNN'' (new_log w w'))
        = (if nnDef_runNN (cfg w) then 2 else 0)
    \<and> length (pred_fields E (heap w) ''predSVM'' (new_log w w'))
        = (if svmDef_runSVM (cfg w) then 2 else 0)
    \<and> length (pred_fields E (heap w) ''predTF'' (new_log w w') @ tfAccur_field E (cfg w))
        = (if tfDef_runTF (cfg w) then 3 else 0)
    \<and> length (answers E ''runKMmain'' (new_log w w')) = (if kmDef_runKM (cfg w) then 1 else 0)
    \<and> length (Str f # batch_fields E w (new_log w w'))
        = 1 + (if dnntfDef_runDNNTF (cfg w) then 2 else 0)
            + (if kerasDef_runKeras (cfg w) then 2 else 0)
            + (if nnDef_runNN (cfg w) then 2 else 0)
            + (if svmDef_runSVM (cfg w) then 2 else 0)
            + (if tfDef_runTF (cfg w) then 3 else 0)
            + (if kmDef_runKM (cfg w) then 1 else 0)"
proof -
  obtain row w1 where
    s1: "batch_row E f En Cl A Aorig YnormXind learnFile w = (Inr row, w1)" and
    s2: "append_row summary_filename row w1 = (Inr u, w')"
    using assms unfolding processSingleBatch_def by (elim bnd_InrE) blast
  have fl: "files w1 = files w"
    using frameD[OF sf_batch_row s1] by (simp add: same_files_def)
  have nl: "new_log w w' = new_log w w1"
    using append_row_Inr(3)[OF s2] by (simp add: new_log_def)
  have rw: "rows_of w1 summary_filename = rows_of w summary_filename"
    by (simp add: rows_of_def fl)
  note R = batch_row_Inr[OF s1]
  have a: "files w' = (files w)(summary_filename \<mapsto>
             rows_of w summary_filename @ [Str f # batch_fields E w (new_log w w')])"
    using append_row_Inr(2)[OF s2] R by (simp add: fl nl rw)
  have b: "length (batch_fields E w (new_log w w1))
     = (if dnntfDef_runDNNTF (cfg w) then 2 else 0)
            + (if kerasDef_runKeras (cfg w) then 2 else 0)
            + (if nnDef_runNN (cfg w) then 2 else 0)
            + (if svmDef_runSVM (cfg w) then 2 else 0)
            + (if tfDef_runTF (cfg w) then 3 else 0)
            + (if kmDef_runKM (cfg w) then 1 else 0)"
    unfolding batch_fields_def using R by (simp del: length_0_conv)
  show ?thesis using a b R by (simp add: nl)
qed

theorem C1_witness:
  "fst (batch_a env0 cfg_all) = Inr ()
   \<and> files (snd (batch_a env0 cfg_all)) ''summary.csv''
       = Some [[Str ''a.txt'', Num 3, Num 70, Num 4, Num 60, Num 1, Num 90, Num 2, Num 80,
                Seq [Num 6], Num 50, Num 99, Num 5]]
   \<and> length (Str ''a.txt'' # batch_fields env0 (world_of cfg_all)
                 (new_log (world_of cfg_all) (snd (batch_a env0 cfg_all)))) = 13"
proof -
  have 1: "fst (batch_a env0 cfg_all) = Inr ()"
    by (simp add: eval_defs)
  then have 2: "processSingleBatch env0 ''a.txt'' En0 Cl0 A0 A0 (Num 0) ''summary.csv'' ''train.txt''
                  (world_of cfg_all) = (Inr (), snd (batch_a env0 cfg_all))"
    by (simp add: prod_eq_iff batch_a_def)
  have 3: "files (snd (batch_a env0 cfg_all)) ''summary.csv''
       = Some [[Str ''a.txt'', Num 3, Num 70, Num 4, Num 60, Num 1, Num 90, Num 2, Num 80,
                Seq [Num 6], Num 50, Num 99, Num 5]]"
    by (simp add: eval_defs)
  have 4: "length (Str ''a.txt'' # batch_fields env0 (world_of cfg_all)
                 (new_log (world_of cfg_all) (snd (batch_a env0 cfg_all)))) = 13"
    using C1_row_layout[OF 2] by (simp add: world_of_def cfg_all_def cfg0_def)
  from 1 3 4 show ?thesis by simp
qed

text \<open>
  C1 as stated fails.  With K-Means as the only enabled family the row has two fields, the
  file name and the K-Means prediction, which is neither \<open>1 \<times> 2 + 1\<close> nor \<open>1 \<times> 3 + 1\<close>.
  With Keras and sklearn-NN enabled the two Keras fields come before the two sklearn-NN
  fields, whereas the stated order puts the generic network before Keras.
\<close>

theorem C1_counterexample:
  "fst (batch_a env0 cfg_km) = Inr ()
   \<and> files (snd (batch_a env0 cfg_km)) ''summary.csv'' = Some [[Str ''a.txt'', Num 5]]
   \<and> length [Str ''a.txt'', Num 5] \<noteq> 1 * 2 + 1
   \<and> length [Str ''a.txt'', Num 5] \<noteq> 1 * 3 + 1
   \<and> ext env0 ''predKeras'' cfg_keras_nn [] = Inr (Seq [Num 4, Num 60])
   \<and> ext env0 ''predNN'' cfg_keras_nn [] = Inr (Seq [Num 1, Num 90])
   \<and> files (snd (batch_a env0 cfg_keras_nn)) ''summary.csv''
       = Some [[Str ''a.txt'', Num 4, Num 60, Num 1, Num 90]]"
  by (simp add: eval_defs)

section \<open>Batch mode: what the sequential loop does to the configuration\<close>

lemma br_batch_loop: "frame batch_rel (batch_loop E En Cl A Aorig Y sf lf fs)"
  by (induction fs) (auto intro!: br_rules br_processSingleBatch)



section \<open>Batch mode: the files that are processed\<close>

lemma processed_append: "processed (xs @ ys) = processed xs @ processed ys"
  by (simp add: processed_def)

lemma quiet_reflp: "reflp quiet"
  by (simp add: reflp_def quiet_def processed_def)

lemma quiet_transp: "transp quiet"
  by (rule transpI) (auto simp: quiet_def processed_append)

lemma quiet_call: "frame quiet (call E n args)"
  by (simp add: frame_def call_def quiet_def Let_def processed_def processed_of_def)

lemma quiet_setcfg: "frame quiet (setcfg u)"
  by (simp add: frame_def setcfg_def quiet_def processed_def)

lemma quiet_append_row: "frame quiet (append_row n r)"
  by (simp add: frame_def append_row_def quiet_def processed_def)

lemmas quiet_rules = frame_bnd[OF quiet_transp] frame_ret[OF quiet_reflp] frame_throw[OF quiet_reflp]
  frame_unpack2[OF quiet_reflp] frame_unpack4[OF quiet_reflp] frame_global[OF quiet_reflp]
  frame_struct quiet_call quiet_setcfg quiet_append_row

lemma quiet_blocks:
  "frame quiet (batch_DNNTF E A Cl R root row)"
  "frame quiet (batch_Keras E En A Cl R root row)"
  "frame quiet (batch_NN E A Cl R root row)"
  "frame quiet (batch_SVM E En A Cl R root row)"
  "frame quiet (batch_TF E A Cl R root row)"
  "frame quiet (batch_KM E En A Cl R Aorig Rorig row)"
  "frame quiet (call2 E n args)"
  "frame quiet (call4 E n args)"
  unfolding batch_defs by (intro quiet_rules)+

lemma bnd_cases:
  assumes "bnd m f w = (r, w'')"
  obtains e where "m w = (Inl e, w'')" "r = Inl e"
    | x w' where "m w = (Inr x, w')" and "f x w' = (r, w'')"
  using assms by (auto simp: bnd_def split: prod.splits sum.splits)

lemma print_then_quiet:
  assumes run: "bnd (bnd (pyprint p) f) g w = (r, w')"
    and q: "\<And>u. frame quiet (bnd (f u) g)"
  shows "processed (new_log w w') = processed [Print p]"
proof -
  let ?w1 = "w\<lparr>log := log w @ [Print p]\<rparr>"
  have "bnd (bnd (pyprint p) f) g w = bnd (f ()) g ?w1"
    by (simp add: bnd_def pyprint_def)
  then have "bnd (f ()) g ?w1 = (r, w')" using run by simp
  from frameD[OF q this] obtain evs where
    "log w' = (log w @ [Print p]) @ evs" "processed evs = []"
    by (auto simp: quiet_def)
  then show ?thesis
    by (simp add: new_log_def processed_def)
qed

lemma processSingleBatch_processed:
  assumes "processSingleBatch E f En Cl A Aorig Y sf lf w = (r, w')"
  shows "processed (new_log w w') = [f]"
proof -
  have "processed (new_log w w') = processed [Print [Str '' Processing file: '', Str f]]"
    using assms unfolding processSingleBatch_def batch_row_def
    by (rule print_then_quiet) (intro quiet_rules quiet_blocks)
  then show ?thesis by (simp add: processed_def processed_of_def)
qed

lemma batch_rel_grows: "batch_rel w w' \<Longrightarrow> log_grows w w'"
  by (auto simp: batch_rel_def log_grows_def)

lemma quiet_grows: "quiet w w' \<Longrightarrow> log_grows w w'"
  by (auto simp: quiet_def log_grows_def)

lemma new_log_trans:
  "log_grows a b \<Longrightarrow> log_grows b c \<Longrightarrow> new_log a c = new_log a b @ new_log b c"
  by (auto simp: log_grows_def new_log_def)

lemma new_log_same: "log b = log a \<Longrightarrow> new_log a b = []"
  by (simp add: new_log_def)

lemma quiet_processed: "quiet w w' \<Longrightarrow> processed (new_log w w') = []"
  by (auto simp: quiet_def new_log_def)

lemma batch_loop_processed:
  assumes "batch_loop E En Cl A Aorig Y sf lf fs w = (r, w')"
  shows "prefix (processed (new_log w w')) (filter (\<lambda>f. f \<noteq> lf) fs)
     \<and> (r = Inr () \<longrightarrow> processed (new_log w w') = filter (\<lambda>f. f \<noteq> lf) fs)"
  using assms
proof (induction fs arbitrary: w)
  case Nil
  then show ?case by (simp add: ret_def new_log_def processed_def)
next
  case (Cons f fs)
  show ?case
  proof (cases "f = lf")
    case True
    then have "batch_loop E En Cl A Aorig Y sf lf fs w = (r, w')"
      using Cons.prems by (simp add: bnd_def ret_def)
    from Cons.IH[OF this] True show ?thesis by simp
  next
    case False
    then have run: "bnd (processSingleBatch E f En Cl A Aorig Y sf lf)
         (\<lambda>_. batch_loop E En Cl A Aorig Y sf lf fs) w = (r, w')"
      using Cons.prems by simp
    from run show ?thesis
    proof (cases rule: bnd_cases)
      case (1 e)
      then show ?thesis
        using processSingleBatch_processed[OF 1(1)] False by simp
    next
      case (2 x w1)
      have g1: "log_grows w w1"
        using frameD[OF br_processSingleBatch 2(1)] by (rule batch_rel_grows)
      have g2: "log_grows w1 w'"
        using frameD[OF br_batch_loop 2(2)] by (rule batch_rel_grows)
      show ?thesis
        using Cons.IH[OF 2(2)] processSingleBatch_processed[OF 2(1)] False
        by (simp add: new_log_trans[OF g1 g2] processed_append)
    qed
  qed
qed

lemma submit_loop_files:
  "map fst (submit_loop En Cl A Aorig Y sf lf fs) = filter (\<lambda>f. f \<noteq> lf) fs"
  by (induction fs) auto

lemma quiet_makeHeaderSummary: "frame quiet (makeHeaderSummary E sf lf)"
  unfolding makeHeaderSummary_def by (rule quiet_append_row)

text \<open>
  C4.  In batch mode the files handed to \<open>processSingleBatch\<close> are taken, in the order of
  the listing, from the files that \<open>glob('*.txt')\<close> returns and whose name differs from the
  name of the training file: the training file itself is never processed.  When the
  sequential run returns, every such file has been processed; with the process pool, every
  such file has been submitted, and no other.  In a sequential run that an exception ends,
  the files processed are the first ones of that list.
\<close>

theorem C4_batch_targets:
  assumes "LearnPredictBatch E learnFile summary_filename w = (r, w')"
  shows "prefix (processed (new_log w w')) (filter (\<lambda>f. f \<noteq> learnFile) (glob E ''*.txt''))
    \<and> learnFile \<notin> set (processed (new_log w w'))
    \<and> (r = Inr None \<longrightarrow>
          processed (new_log w w') = filter (\<lambda>f. f \<noteq> learnFile) (glob E ''*.txt''))
    \<and> (\<forall>p. r = Inr (Some p) \<longrightarrow>
          map fst (queue p) = filter (\<lambda>f. f \<noteq> learnFile) (glob E ''*.txt''))"
proof -
  let ?T = "filter (\<lambda>f. f \<noteq> learnFile) (glob E ''*.txt'')"
  have main: "prefix (processed (new_log w w')) ?T
    \<and> (r = Inr None \<longrightarrow> processed (new_log w w') = ?T)
    \<and> (\<forall>p. r = Inr (Some p) \<longrightarrow> map fst (queue p) = ?T)"
    using assms unfolding LearnPredictBatch_def split_def
  proof (cases rule: bnd_cases)
    case (1 e)
    from quiet_processed[OF frameD[OF quiet_makeHeaderSummary 1(1)]] 1(2)
    show ?thesis by simp
  next
    case (2 x1 w1)
    note q1 = frameD[OF quiet_makeHeaderSummary 2(1)]
    from 2(2) show ?thesis
    proof (cases rule: bnd_cases)
      case (1 e)
      note q2 = frameD[OF quiet_blocks(8) 1(1)]
      have "quiet w w'" using q1 q2 quiet_transp by (blast dest: transpD)
      from quiet_processed[OF this] 1(2) show ?thesis by simp
    next
      case (2 x2 w2)
      note q2 = frameD[OF quiet_blocks(8) 2(1)]
      from 2(2) show ?thesis
      proof (cases rule: bnd_cases)
        case (1 e)
        note q3 = frameD[OF quiet_blocks(8) 1(1)]
        have "quiet w w'" using q1 q2 q3 quiet_transp by (blast dest: transpD)
        from quiet_processed[OF this] 1(2) show ?thesis by simp
      next
        case (2 x3 w3)
        note q3 = frameD[OF quiet_blocks(8) 2(1)]
        have q: "quiet w w3" using q1 q2 q3 quiet_transp by (blast dest: transpD)
        show ?thesis
        proof (cases "sysDef_multiProc (cfg w3)")
          case True
          with 2(2) have "w' = w3"
            by (auto simp: ifc_def split: if_splits)
          with True 2(2) q show ?thesis
            by (auto simp: ifc_def quiet_processed submit_loop_files split: if_splits)
        next
          case False
          with 2(2) have run: "bnd (batch_loop E (fst (snd (snd x3))) (fst (snd x3)) (fst x3)
              (snd (snd (snd x3))) (snd (snd (snd x2))) summary_filename learnFile (glob E ''*.txt''))
              (\<lambda>_. ret None) w3 = (r, w')"
            by (simp add: ifc_def)
          from run show ?thesis
          proof (cases rule: bnd_cases)
            case (1 e)
            have g: "log_grows w3 w'"
              using frameD[OF br_batch_loop 1(1)] by (rule batch_rel_grows)
            show ?thesis
              using batch_loop_processed[OF 1(1)] 1(2) quiet_processed[OF q]
              by (simp add: new_log_trans[OF quiet_grows[OF q] g] processed_append)
          next
            case (2 x4 w4)
            then have [simp]: "w4 = w'" "r = Inr None" by (auto simp: ret_def)
            have g: "log_grows w3 w'"
              using frameD[OF br_batch_loop 2(1)] by (simp add: batch_rel_grows)
            show ?thesis
              using batch_loop_processed[OF 2(1)] quiet_processed[OF q]
              by (simp add: new_log_trans[OF quiet_grows[OF q] g] processed_append)
          qed
        qed
      qed
    qed
  qed
  moreover have "learnFile \<notin> set (processed (new_log w w'))"
  proof
    assume "learnFile \<in> set (processed (new_log w w'))"
    moreover have "set (processed (new_log w w')) \<subseteq> set ?T"
      using main by (blast dest: set_mono_prefix)
    ultimately have "learnFile \<in> set ?T" by blast
    then show False by simp
  qed
  ultimately show ?thesis by simp
qed

lemmas eval_batch = LearnPredictBatch_def makeHeaderSummary_def new_log_def processed_def
  processed_of_def

theorem C4_witness:
  "fst (LearnPredictBatch env0 ''train.txt'' ''summary.csv'' (world_of cfg_km)) = Inr None
   \<and> filter (\<lambda>f. f \<noteq> ''train.txt'') (glob env0 ''*.txt'') = [''a.txt'', ''b.txt'']
   \<and> processed (new_log (world_of cfg_km)
         (snd (LearnPredictBatch env0 ''train.txt'' ''summary.csv'' (world_of cfg_km))))
       = [''a.txt'', ''b.txt'']
   \<and> (case fst (LearnPredictBatch env0 ''train.txt'' ''summary.csv'' (world_of cfg_km_par)) of
         Inr (Some p) \<Rightarrow> map fst (queue p) = [''a.txt'', ''b.txt'']
       | _ \<Rightarrow> False)"
proof -
  let ?s = "LearnPredictBatch env0 ''train.txt'' ''summary.csv'' (world_of cfg_km)"
  let ?p = "LearnPredictBatch env0 ''train.txt'' ''summary.csv'' (world_of cfg_km_par)"
  have 1: "fst ?s = Inr None"
    by (simp add: eval_defs eval_batch)
  then have 2: "?s = (Inr None, snd ?s)"
    by (simp add: prod_eq_iff)
  have 3: "filter (\<lambda>f. f \<noteq> ''train.txt'') (glob env0 ''*.txt'') = [''a.txt'', ''b.txt'']"
    by (simp add: env0_def)
  have 4: "\<exists>p. fst ?p = Inr (Some p)"
    by (simp add: eval_defs eval_batch cfg_km_par_def)
  then obtain p where 5: "fst ?p = Inr (Some p)" by blast
  then have 6: "?p = (Inr (Some p), snd ?p)"
    by (simp add: prod_eq_iff)
  from C4_batch_targets[OF 2] C4_batch_targets[OF 6] 1 3 5 show ?thesis by simp
qed

section \<open>Batch mode: the header comes first\<close>

lemma processSingleBatch_rows:
  assumes "processSingleBatch E f En Cl A Aorig Y sf lf w = (r, w')"
  shows "rows_of w' sf = rows_of w sf \<or> (\<exists>cells. rows_of w' sf = rows_of w sf @ [Str f # cells])"
  using assms unfolding processSingleBatch_def
proof (cases rule: bnd_cases)
  case (1 e)
  from frameD[OF sf_batch_row 1(1)] show ?thesis by (simp add: same_files_def rows_of_def)
next
  case (2 row w1)
  have fl: "files w1 = files w"
    using frameD[OF sf_batch_row 2(1)] by (simp add: same_files_def)
  have "row = Str f # batch_fields E w (new_log w w1)" using batch_row_Inr[OF 2(1)] by simp
  then show ?thesis using 2(2) fl by (auto simp: append_row_def rows_of_def)
qed

lemma batch_loop_rows:
  assumes "batch_loop E En Cl A Aorig Y sf lf fs w = (r, w')" and "set fs \<subseteq> set (glob E ''*.txt'')"
  shows "\<exists>data. rows_of w' sf = rows_of w sf @ data \<and> list_all (data_row E lf) data"
  using assms
proof (induction fs arbitrary: w)
  case Nil
  then show ?case by (simp add: ret_def)
next
  case (Cons f fs)
  show ?case
  proof (cases "f = lf")
    case True
    then have "batch_loop E En Cl A Aorig Y sf lf fs w = (r, w')"
      using Cons.prems by (simp add: bnd_def ret_def)
    from Cons.IH[OF this] Cons.prems(2) show ?thesis by simp
  next
    case False
    then have run: "bnd (processSingleBatch E f En Cl A Aorig Y sf lf)
         (\<lambda>_. batch_loop E En Cl A Aorig Y sf lf fs) w = (r, w')"
      using Cons.prems by simp
    have dr: "data_row E lf (Str f # cells)" for cells
      using False Cons.prems(2) by (simp add: data_row_def)
    from run show ?thesis
    proof (cases rule: bnd_cases)
      case (1 e)
      from processSingleBatch_rows[OF 1(1)] dr show ?thesis
        by (auto intro: exI[where x="[]"] exI[where x="[Str f # cells]" for cells])
    next
      case (2 x w1)
      from Cons.IH[OF 2(2)] Cons.prems(2) obtain data where
        d: "rows_of w' sf = rows_of w1 sf @ data" "list_all (data_row E lf) data" by auto
      from processSingleBatch_rows[OF 2(1)] show ?thesis
      proof
        assume "rows_of w1 sf = rows_of w sf"
        with d show ?thesis by auto
      next
        assume "\<exists>cells. rows_of w1 sf = rows_of w sf @ [Str f # cells]"
        then obtain cells where "rows_of w1 sf = rows_of w sf @ [Str f # cells]" by blast
        with d dr[of cells] have "rows_of w' sf = rows_of w sf @ (Str f # cells) # data
           \<and> list_all (data_row E lf) ((Str f # cells) # data)" by simp
        then show ?thesis by blast
      qed
    qed
  qed
qed

lemma submit_loop_ok:
  "set fs \<subseteq> set (glob E ''*.txt'') \<Longrightarrow>
   list_all (task_ok E sf lf) (submit_loop En Cl A Aorig Y sf lf fs)"
  by (induction fs) (auto simp: task_ok_def)

lemma pool_step_inv:
  assumes "pool_step E p p'" and "pool_inv E sf lf before p"
  shows "pool_inv E sf lf before p'"
  using assms
proof (cases rule: pool_step.cases)
  case (start t q k w)
  have "list_all (\<lambda>x. case snd x of None \<Rightarrow> True | Some t \<Rightarrow> task_ok E sf lf t)
          ((workers p)[k := (w, Some t)])"
    using assms(2) start
    by (auto simp: pool_inv_def list_all_iff dest!: set_update_subset_insert[THEN subsetD])
  then show ?thesis
    using assms(2) start by (auto simp: pool_inv_def disk_rows_def)
next
  case (finish k w t r w')
  have "(w, Some t) \<in> set (workers p)" using finish by (metis nth_mem)
  then have ok: "task_ok E sf lf t"
    using assms(2) by (auto simp: pool_inv_def list_all_iff)
  obtain f En Cl A Aorig Y where t: "t = (f, En, Cl, A, Aorig, Y, sf, lf)"
    and f: "f \<noteq> lf" "f \<in> set (glob E ''*.txt'')"
    using ok by (cases t) (auto simp: task_ok_def)
  have run: "processSingleBatch E f En Cl A Aorig Y sf lf (w\<lparr>files := disk p\<rparr>) = (r, w')"
    using finish(4) t by (simp add: run_task_def)
  have r0: "rows_of (w\<lparr>files := disk p\<rparr>) sf = disk_rows p sf"
    by (simp add: rows_of_def disk_rows_def)
  have r1: "disk_rows p' sf = rows_of w' sf"
    using finish(1) by (simp add: rows_of_def disk_rows_def)
  obtain data where d: "disk_rows p sf = before @ header E lf # data" "list_all (data_row E lf) data"
    using assms(2) by (auto simp: pool_inv_def)
  have dr: "data_row E lf (Str f # cells)" for cells
    using f by (simp add: data_row_def)
  have rows: "\<exists>data. disk_rows p' sf = before @ header E lf # data \<and> list_all (data_row E lf) data"
    using processSingleBatch_rows[OF run]
  proof
    assume "rows_of w' sf = rows_of (w\<lparr>files := disk p\<rparr>) sf"
    then show ?thesis using d r0 r1 by auto
  next
    assume "\<exists>cells. rows_of w' sf = rows_of (w\<lparr>files := disk p\<rparr>) sf @ [Str f # cells]"
    then obtain cells where "rows_of w' sf = rows_of (w\<lparr>files := disk p\<rparr>) sf @ [Str f # cells]"
      by blast
    then have "disk_rows p' sf = before @ header E lf # (data @ [Str f # cells])
         \<and> list_all (data_row E lf) (data @ [Str f # cells])"
      using d r0 r1 dr[of cells] by simp
    then show ?thesis by blast
  qed
  have "list_all (\<lambda>x. case snd x of None \<Rightarrow> True | Some t \<Rightarrow> task_ok E sf lf t)
          ((workers p)[k := (w', None)])"
    using assms(2) finish
    by (auto simp: pool_inv_def list_all_iff dest!: set_update_subset_insert[THEN subsetD])
  then show ?thesis
    using assms(2) finish(1) rows by (simp add: pool_inv_def)
qed

lemma pool_run_inv:
  assumes "(pool_step E)\<^sup>*\<^sup>* p p'" and "pool_inv E sf lf before p"
  shows "pool_inv E sf lf before p'"
  using assms by (induction rule: rtranclp_induct) (auto intro: pool_step_inv)

lemma sf_call4: "frame same_files (call4 E n args)"
  unfolding call4_def by (intro sf_rules)

lemma same_files_rows: "same_files w w' \<Longrightarrow> rows_of w' n = rows_of w n"
  by (simp add: same_files_def rows_of_def)

text \<open>
  C7.  \<open>LearnPredictBatch\<close> writes the header before it does anything else, once.  Whatever
  the run does afterwards, the summary file consists of what it held before the run (nothing,
  for a new file), then the header row, then data rows only: this holds when the sequential
  run ends, normally or not, and in every state that the process pool can reach from the
  moment it has been created, whatever the order in which the workers take and finish their
  tasks.
\<close>

theorem C7_header_first:
  assumes "LearnPredictBatch E learnFile summary_filename w = (r, w')"
  shows "(\<exists>data. rows_of w' summary_filename
                  = rows_of w summary_filename @ header E learnFile # data
                \<and> list_all (data_row E learnFile) data)
    \<and> (\<forall>p0 p. r = Inr (Some p0) \<longrightarrow> (pool_step E)\<^sup>*\<^sup>* p0 p \<longrightarrow>
          (\<exists>data. disk_rows p summary_filename
                     = rows_of w summary_filename @ header E learnFile # data
                   \<and> list_all (data_row E learnFile) data))"
proof -
  let ?sf = summary_filename
  let ?goal1 = "\<lambda>w'. \<exists>data. rows_of w' ?sf = rows_of w ?sf @ header E learnFile # data
                \<and> list_all (data_row E learnFile) data"
  obtain u w1 where
    s1: "makeHeaderSummary E ?sf learnFile w = (Inr u, w1)" and
    h1: "rows_of w1 ?sf = rows_of w ?sf @ [header E learnFile]"
    by (auto simp: makeHeaderSummary_def append_row_def rows_of_def)
  have base: "rows_of w'' ?sf = rows_of w1 ?sf \<Longrightarrow> ?goal1 w''" for w''
    using h1 by (auto intro: exI[where x="[]"])
  from assms have run: "bnd (call4 E ''readLearnFile'' [Str learnFile])
       (\<lambda>x. bnd (call4 E ''preProcessNormLearningData''
                   [fst (snd (snd x)), fst x, fst (snd x), snd (snd (snd x)), Num 0])
       (\<lambda>y. ifc (\<lambda>c. sysDef_multiProc c = True)
       (\<lambda>w. if sysDef_numCores (cfg w) = 0 then (Inl ValueError, w)
            else (Inr (Some \<lparr>queue = submit_loop (fst (snd (snd y))) (fst (snd y)) (fst y)
                                         (snd (snd (snd y))) (snd (snd (snd x))) ?sf learnFile
                                         (glob E ''*.txt''),
                              workers = replicate (sysDef_numCores (cfg w)) (w\<lparr>log := []\<rparr>, None),
                              disk = files w\<rparr>), w))
       (bnd (batch_loop E (fst (snd (snd y))) (fst (snd y)) (fst y) (snd (snd (snd y)))
                (snd (snd (snd x))) ?sf learnFile (glob E ''*.txt''))
          (\<lambda>_. ret None)))) w1 = (r, w')"
    unfolding LearnPredictBatch_def split_def using s1 by (simp add: bnd_def)
  from run show ?thesis
  proof (cases rule: bnd_cases)
    case (1 e)
    from same_files_rows[OF frameD[OF sf_call4 1(1)]] 1(2) base show ?thesis by simp
  next
    case (2 x w2)
    note f2 = same_files_rows[OF frameD[OF sf_call4 2(1)]]
    from 2(2) show ?thesis
    proof (cases rule: bnd_cases)
      case (1 e)
      from same_files_rows[OF frameD[OF sf_call4 1(1)]] f2 1(2) base show ?thesis by simp
    next
      case (2 y w3)
      note f3 = same_files_rows[OF frameD[OF sf_call4 2(1)]]
      have r3: "rows_of w3 ?sf = rows_of w1 ?sf" using f2 f3 by simp
      show ?thesis
      proof (cases "sysDef_multiProc (cfg w3)")
        case True
        with 2(2) have w': "w' = w3" by (auto simp: ifc_def split: if_splits)
        have g1: "?goal1 w'" using base r3 w' by simp
        have "\<exists>data. disk_rows p ?sf = rows_of w ?sf @ header E learnFile # data
                   \<and> list_all (data_row E learnFile) data"
          if r: "r = Inr (Some p0)" and st: "(pool_step E)\<^sup>*\<^sup>* p0 p" for p0 p
        proof -
          from r True 2(2) have p0: "p0 = \<lparr>queue = submit_loop (fst (snd (snd y))) (fst (snd y)) (fst y)
                                         (snd (snd (snd y))) (snd (snd (snd x))) ?sf learnFile
                                         (glob E ''*.txt''),
                              workers = replicate (sysDef_numCores (cfg w3)) (w3\<lparr>log := []\<rparr>, None),
                              disk = files w3\<rparr>"
            by (auto simp: ifc_def split: if_splits)
          have "disk_rows p0 ?sf = rows_of w ?sf @ header E learnFile # []"
            using r3 h1 by (simp add: p0 disk_rows_def rows_of_def)
          moreover have "list_all (task_ok E ?sf learnFile) (queue p0)"
            unfolding p0 by (simp add: submit_loop_ok)
          moreover have "list_all (\<lambda>x. case snd x of None \<Rightarrow> True
                 | Some t \<Rightarrow> task_ok E ?sf learnFile t) (workers p0)"
            unfolding p0 by (simp add: list_all_iff)
          ultimately have "pool_inv E ?sf learnFile (rows_of w ?sf) p0"
            unfolding pool_inv_def by auto
          from pool_run_inv[OF st this] show ?thesis by (simp add: pool_inv_def)
        qed
        with g1 show ?thesis by blast
      next
        case False
        with 2(2) have run: "bnd (batch_loop E (fst (snd (snd y))) (fst (snd y)) (fst y)
            (snd (snd (snd y))) (snd (snd (snd x))) ?sf learnFile (glob E ''*.txt''))
            (\<lambda>_. ret None) w3 = (r, w')"
          by (simp add: ifc_def)
        have "\<exists>r'. batch_loop E (fst (snd (snd y))) (fst (snd y)) (fst y)
            (snd (snd (snd y))) (snd (snd (snd x))) ?sf learnFile (glob E ''*.txt'') w3 = (r', w')
            \<and> (\<forall>p0. r \<noteq> Inr (Some p0))"
          using run by (cases rule: bnd_cases) (auto simp: ret_def)
        then obtain r' where l: "batch_loop E (fst (snd (snd y))) (fst (snd y)) (fst y)
            (snd (snd (snd y))) (snd (snd (snd x))) ?sf learnFile (glob E ''*.txt'') w3 = (r', w')"
          and np: "\<forall>p0. r \<noteq> Inr (Some p0)" by blast
        from batch_loop_rows[OF l] obtain data where
          "rows_of w' ?sf = rows_of w3 ?sf @ data" "list_all (data_row E learnFile) data" by auto
        then have "?goal1 w'" using r3 h1 by auto
        with np show ?thesis by blast
      qed
    qed
  qed
qed

lemmas pool_defs = pool0_def pool1_def pool2_def pool3_def pool4_def task_a_def task_b_def
  world_hdr_def run_task_def cfg_km_par_def

lemma pool0_created: "fst (LearnPredictBatch env0 ''train.txt'' ''summary.csv'' (world_of cfg_km_par)) = Inr (Some pool0)"
  by (simp add: eval_defs eval_batch pool_defs rows_of_def numeral_2_eq_2)

lemma pool_st1: "pool_step env0 pool0 pool1"
  unfolding pool1_def
  by (rule pool_step.start[where k=0 and w=world_hdr and t=task_a]) (simp_all add: pool0_def)

lemma pool_st2: "pool_step env0 pool1 pool2"
  unfolding pool2_def
  by (rule pool_step.start[where k=1 and w=world_hdr and t=task_b]) (simp_all add: pool1_def pool0_def)

lemma pool_st3: "pool_step env0 pool2 pool3"
  unfolding pool3_def
  by (rule pool_step.finish[where k=1 and w=world_hdr and t=task_b
        and r="fst (run_task env0 task_b (world_hdr\<lparr>files := disk pool2\<rparr>))"])
     (simp_all add: pool2_def pool1_def pool0_def)

lemma pool_st4: "pool_step env0 pool3 pool4"
  unfolding pool4_def
  by (rule pool_step.finish[where k=0 and w=world_hdr and t=task_a
        and r="fst (run_task env0 task_a (world_hdr\<lparr>files := disk pool3\<rparr>))"])
     (simp_all add: pool3_def pool2_def pool1_def pool0_def)

lemma pool4_rows: "disk_rows pool4 ''summary.csv''
   = [[Str ''Training File:'', Str ''train.txt''], [Str ''b.txt'', Num 5], [Str ''a.txt'', Num 5]]"
  by (simp add: disk_rows_def pool_defs eval_defs)

lemma pool4_idle: "pool_idle pool4"
  by (simp add: pool_idle_def pool_defs)

theorem C7_witness:
  "fst (LearnPredictBatch env0 ''train.txt'' ''summary.csv'' (world_of cfg_km_par)) = Inr (Some pool0)
   \<and> (pool_step env0)\<^sup>*\<^sup>* pool0 pool4
   \<and> pool_idle pool4
   \<and> disk_rows pool4 ''summary.csv''
       = [[Str ''Training File:'', Str ''train.txt''], [Str ''b.txt'', Num 5], [Str ''a.txt'', Num 5]]
   \<and> (\<exists>data. disk_rows pool4 ''summary.csv''
                = rows_of (world_of cfg_km_par) ''summary.csv'' @ header env0 ''train.txt'' # data
              \<and> list_all (data_row env0 ''train.txt'') data)
   \<and> rows_of (snd (LearnPredictBatch env0 ''train.txt'' ''summary.csv'' (world_of cfg_km)))
         ''summary.csv''
       = [[Str ''Training File:'', Str ''train.txt''], [Str ''a.txt'', Num 5], [Str ''b.txt'', Num 5]]"
proof -
  let ?p = "LearnPredictBatch env0 ''train.txt'' ''summary.csv'' (world_of cfg_km_par)"
  have 1: "?p = (Inr (Some pool0), snd ?p)"
    using pool0_created by (simp add: prod_eq_iff)
  have 2: "(pool_step env0)\<^sup>*\<^sup>* pool0 pool4"
    using pool_st1 pool_st2 pool_st3 pool_st4 by (meson rtranclp.rtrancl_into_rtrancl rtranclp.rtrancl_refl)
  have 3: "\<exists>data. disk_rows pool4 ''summary.csv''
                = rows_of (world_of cfg_km_par) ''summary.csv'' @ header env0 ''train.txt'' # data
              \<and> list_all (data_row env0 ''train.txt'') data"
    using C7_header_first[OF 1] 2 by blast
  have 4: "rows_of (snd (LearnPredictBatch env0 ''train.txt'' ''summary.csv'' (world_of cfg_km)))
         ''summary.csv''
       = [[Str ''Training File:'', Str ''train.txt''], [Str ''a.txt'', Num 5], [Str ''b.txt'', Num 5]]"
    by (simp add: eval_defs eval_batch)
  from pool0_created 2 pool4_idle pool4_rows 3 4 show ?thesis by simp
qed

section \<open>The PCA diagnostic: the number of components\<close>

lemma calls_append: "calls (xs @ ys) = calls xs @ calls ys"
  by (induction xs rule: calls.induct) auto

lemma calls_of_append: "calls_of n (xs @ ys) = calls_of n xs @ calls_of n ys"
  by (simp add: calls_of_def calls_append)

lemma calls_of_absent: "n \<notin> set (call_names evs) \<Longrightarrow> calls_of n evs = []"
  by (induction evs rule: calls.induct) (auto simp: calls_of_def)

lemma log_rel_reflp: "reflp (log_rel S)"
  unfolding reflp_def log_rel_def by (auto intro: exI[where x="[]"])

lemma log_rel_transp: "transp (log_rel S)"
proof (rule transpI)
  fix a b c assume "log_rel S a b" "log_rel S b c"
  then obtain e1 e2 where "b = a\<lparr>log := log a @ e1\<rparr>" "set (call_names e1) \<subseteq> S"
    "c = b\<lparr>log := log b @ e2\<rparr>" "set (call_names e2) \<subseteq> S"
    by (auto simp: log_rel_def)
  then have "c = a\<lparr>log := log a @ (e1 @ e2)\<rparr> \<and> set (call_names (e1 @ e2)) \<subseteq> S"
    by (simp add: call_names_append)
  then show "log_rel S a c" unfolding log_rel_def by blast
qed

lemma log_rel_call: "n \<in> S \<Longrightarrow> frame (log_rel S) (call E n args)"
  by (auto simp: frame_def call_def log_rel_def Let_def
           intro!: exI[where x="[Call n c a]" for c a])

lemma log_rel_print: "frame (log_rel S) (pyprint u)"
  by (auto simp: frame_def pyprint_def log_rel_def intro!: exI[where x="[Print u]"])

lemma log_rel_unique: "frame (log_rel S) (np_unique_count v)"
  by (auto simp: frame_def np_unique_count_def log_rel_def intro!: exI[where x="[]"])

lemmas log_rel_rules = frame_bnd[OF log_rel_transp] frame_ret[OF log_rel_reflp]
  frame_throw[OF log_rel_reflp] frame_unpack2[OF log_rel_reflp] frame_unpack3[OF log_rel_reflp]
  frame_unpack4[OF log_rel_reflp] frame_getc[OF log_rel_reflp] frame_index[OF log_rel_reflp]
  frame_shape0[OF log_rel_reflp] frame_struct log_rel_print log_rel_unique

lemma log_rel_print_scores: "frame (log_rel S) (print_scores ratio is)"
  by (induction "is") (auto intro!: log_rel_rules)

lemma bnd_pyprint: "bnd (pyprint p) f w = f () (w\<lparr>log := log w @ [Print p]\<rparr>)"
  by (simp add: bnd_def pyprint_def)

lemma bnd_unique: "bnd (np_unique_count v) f w = f (length (remdups (elems (heap w) v))) w"
  by (simp add: bnd_def np_unique_count_def)

lemma bnd_ret: "bnd (ret x) f w = f x w"
  by (simp add: bnd_def ret_def)

lemma bnd_assoc: "bnd (bnd m f) g = bnd m (\<lambda>x. bnd (f x) g)"
  by (auto simp: bnd_def fun_eq_iff split: prod.splits sum.splits)

lemma bnd_ifc: "bnd (ifc p m1 m2) f w = (if p (cfg w) then bnd m1 f w else bnd m2 f w)"
  by (simp add: bnd_def ifc_def)

lemma runPCA_unfold:
  "runPCA E En Cl A Y k w =
     bnd (call3 E ''PCA''
            [Num (if pcaDef_customNumPCAComp (cfg w) then k
                  else int (length (remdups (elems (heap w) Cl)))), A])
       (\<lambda>(components, ratio, A_r).
     bnd (shape0 components)
       (\<lambda>k.
     bnd (print_scores ratio [0..<k])
       (\<lambda>_.
     bnd (pyprint [Str []])
       (\<lambda>_.
     ifc (\<lambda>c. plotDef_showPCAPlots c = True)
       (bnd (pyprint [Str '' Plotting Loadings and score plots... ''])
          (\<lambda>_. bnd (call E ''plotPCA'' [En, Cl, components, ratio, A_r]) (\<lambda>_. ret ())))
       (ret ())))))
     (w\<lparr>log := log w @
        [Print [Str ''==========================================================================''],
         Print [Str '' Running PCA...''],
         Print [Str '' Number of unique identifiers in training data: '',
                Num (int (length (remdups (elems (heap w) Cl))))],
         Print [Str '' Number of Principal components: '',
                Num (if pcaDef_customNumPCAComp (cfg w) then k
                     else int (length (remdups (elems (heap w) Cl))))]]\<rparr>)"
  unfolding runPCA_def
  by (simp add: bnd_pyprint bnd_unique bnd_ret bnd_assoc bnd_ifc)

lemma bnd_call:
  "bnd (call E n args) f w =
     (case ext E n (cfg w) (map (snapshot (heap w)) args) of
        Inl e \<Rightarrow> (Inl e, w\<lparr>log := log w @ [Call n (cfg w) (map (snapshot (heap w)) args)]\<rparr>)
      | Inr v \<Rightarrow> f v (w\<lparr>log := log w @ [Call n (cfg w) (map (snapshot (heap w)) args)]\<rparr>))"
  by (simp add: bnd_def call_def Let_def split: sum.splits)

lemma snapshot_Num: "snapshot h (Num x) = Num x"
  by (simp add: snapshot_def)

lemma log_rel_pca_rest: "frame (log_rel {''plotPCA''}) (pca_rest E En Cl v)"
  unfolding pca_rest_def
  by (intro log_rel_rules log_rel_print_scores log_rel_call) simp

lemma runPCA_eq:
  "runPCA E En Cl A Y k w =
     (case ext E ''PCA'' (cfg w) [pca_n w Cl k, snapshot (heap w) A] of
        Inl e \<Rightarrow> (Inl e, w\<lparr>log := log w @ pca_log w Cl A k\<rparr>)
      | Inr v \<Rightarrow> pca_rest E En Cl v (w\<lparr>log := log w @ pca_log w Cl A k\<rparr>))"
  unfolding runPCA_unfold call3_def bnd_assoc bnd_call pca_rest_def pca_log_def pca_n_def
  by (simp add: snapshot_Num split: sum.splits)

lemma runPCA_log:
  "\<exists>evs. snd (runPCA E En Cl A Y k w) = w\<lparr>log := log w @ pca_log w Cl A k @ evs\<rparr>
       \<and> set (call_names evs) \<subseteq> {''plotPCA''}"
proof (cases "ext E ''PCA'' (cfg w) [pca_n w Cl k, snapshot (heap w) A]")
  case (Inl e)
  then show ?thesis by (auto simp: runPCA_eq intro: exI[where x="[]"])
next
  case (Inr v)
  have "log_rel {''plotPCA''} (w\<lparr>log := log w @ pca_log w Cl A k\<rparr>)
          (snd (runPCA E En Cl A Y k w))"
    using log_rel_pca_rest[of E En Cl v] Inr by (simp add: runPCA_eq frame_def)
  then show ?thesis by (auto simp: log_rel_def)
qed

text \<open>
  C3.  Whatever the world and the arguments, \<open>runPCA\<close> calls the PCA library exactly once,
  and the number of components it asks for is the number of distinct labels of the label
  vector when \<open>pcaDef.customNumPCAComp\<close> is off, and the configured number
  \<open>numPCAcomponents\<close> when it is on.  (The statement does not need the label vector to be
  non-empty, and it does not depend on what the library answers.)
\<close>

theorem C3_pca_components:
  "calls_of ''PCA'' (new_log w (snd (runPCA E En (Seq labels) A YnormXind numPCAcomponents w)))
     = [[Num (if pcaDef_customNumPCAComp (cfg w) then numPCAcomponents
              else int (card (set labels))),
         snapshot (heap w) A]]"
proof -
  obtain evs where
    l: "snd (runPCA E En (Seq labels) A YnormXind numPCAcomponents w)
        = w\<lparr>log := log w @ pca_log w (Seq labels) A numPCAcomponents @ evs\<rparr>"
    and s: "set (call_names evs) \<subseteq> {''plotPCA''}"
    using runPCA_log by blast
  have "''PCA'' \<notin> set (call_names evs)" using s by auto
  then have "calls_of ''PCA'' evs = []" by (rule calls_of_absent)
  then show ?thesis
    unfolding l
    by (simp add: new_log_def calls_of_append)
       (simp add: calls_of_def pca_log_def pca_n_def elems_def length_remdups_card_conv)
qed

section \<open>Single-file mode: the PCA diagnostic feeds nothing downstream\<close>

lemma other_calls_append: "other_calls (xs @ ys) = other_calls xs @ other_calls ys"
  by (simp add: other_calls_def calls_append)

lemma insensitive_ret: "insensitive (ret x)"
  by (simp add: insensitive_def ret_def)

lemma insensitive_throw: "insensitive (throw e)"
  by (simp add: insensitive_def throw_def)

lemma insensitive_bnd:
  assumes q: "insensitive q" and f: "\<And>x. insensitive (f x)"
  shows "insensitive (bnd q f)"
  unfolding insensitive_def
proof (intro allI impI)
  fix w w' assume e: "pca_eq w w'"
  obtain r1 w1 where 1: "q w = (r1, w1)" by (cases "q w")
  obtain r2 w2 where 2: "q w' = (r2, w2)" by (cases "q w'")
  from q e 1 2 have r: "r1 = r2" and e1: "pca_eq w1 w2"
    unfolding insensitive_def by (metis fst_conv snd_conv)+
  show "fst (bnd q f w) = fst (bnd q f w') \<and> pca_eq (snd (bnd q f w)) (snd (bnd q f w'))"
  proof (cases r1)
    case (Inl e)
    then show ?thesis using 1 2 r e1 by (simp add: bnd_def)
  next
    case (Inr x)
    from f[of x] e1 have "fst (f x w1) = fst (f x w2) \<and> pca_eq (snd (f x w1)) (snd (f x w2))"
      by (simp add: insensitive_def)
    moreover have "r2 = Inr x" using r Inr by simp
    ultimately show ?thesis using 1 2 Inr by (simp add: bnd_def)
  qed
qed

lemma pca_eq_cfg:
  assumes "pca_eq w w'"
  shows "cfg w' = (cfg w)\<lparr>pcaDef_runPCA := pcaDef_runPCA (cfg w')\<rparr>"
proof -
  have "cfg w' = ((cfg w')\<lparr>pcaDef_runPCA := False\<rparr>)\<lparr>pcaDef_runPCA := pcaDef_runPCA (cfg w')\<rparr>"
    by simp
  also have "\<dots> = ((cfg w)\<lparr>pcaDef_runPCA := False\<rparr>)\<lparr>pcaDef_runPCA := pcaDef_runPCA (cfg w')\<rparr>"
    using assms by (simp only: pca_eq_def)
  finally show ?thesis by simp
qed

lemma insensitive_call:
  assumes "pca_blind E"
  shows "insensitive (call E n args)"
  unfolding insensitive_def
proof (intro allI impI)
  fix w w' assume e: "pca_eq w w'"
  have "ext E n (cfg w') a = ext E n (cfg w) a" for a
    using assms pca_eq_cfg[OF e] by (metis pca_blind_def)
  then show "fst (call E n args w) = fst (call E n args w')
     \<and> pca_eq (snd (call E n args w)) (snd (call E n args w'))"
    using e by (simp add: call_def Let_def pca_eq_def other_calls_append)
               (simp add: other_calls_def)
qed

lemma insensitive_ifc:
  assumes "\<And>c b. p (c\<lparr>pcaDef_runPCA := b\<rparr>) = p c" and "insensitive m1" and "insensitive m2"
  shows "insensitive (ifc p m1 m2)"
  unfolding insensitive_def
proof (intro allI impI)
  fix w w' assume e: "pca_eq w w'"
  have "p (cfg w') = p (cfg w)" using assms(1) pca_eq_cfg[OF e] by metis
  then show "fst (ifc p m1 m2 w) = fst (ifc p m1 m2 w')
     \<and> pca_eq (snd (ifc p m1 m2 w)) (snd (ifc p m1 m2 w'))"
    using e assms(2,3) by (simp add: ifc_def insensitive_def)
qed

lemma insensitive_getc:
  assumes "\<And>c b. sel (c\<lparr>pcaDef_runPCA := b\<rparr>) = sel c"
  shows "insensitive (getc sel)"
  unfolding insensitive_def
proof (intro allI impI)
  fix w w' assume e: "pca_eq w w'"
  have "sel (cfg w') = sel (cfg w)" using assms(1) pca_eq_cfg[OF e] by metis
  then show "fst (getc sel w) = fst (getc sel w') \<and> pca_eq (snd (getc sel w)) (snd (getc sel w'))"
    using e by (simp add: getc_def)
qed

lemma insensitive_setcfg:
  assumes "\<And>c b. u (c\<lparr>pcaDef_runPCA := b\<rparr>) = (u c)\<lparr>pcaDef_runPCA := b\<rparr>"
  shows "insensitive (setcfg u)"
  unfolding insensitive_def
proof (intro allI impI)
  fix w w' assume e: "pca_eq w w'"
  have "(u (cfg w'))\<lparr>pcaDef_runPCA := False\<rparr> = u ((cfg w')\<lparr>pcaDef_runPCA := False\<rparr>)"
    by (simp add: assms)
  also have "\<dots> = u ((cfg w)\<lparr>pcaDef_runPCA := False\<rparr>)" using e by (simp only: pca_eq_def)
  also have "\<dots> = (u (cfg w))\<lparr>pcaDef_runPCA := False\<rparr>" by (simp add: assms)
  finally show "fst (setcfg u w) = fst (setcfg u w') \<and> pca_eq (snd (setcfg u w)) (snd (setcfg u w'))"
    using e by (simp add: setcfg_def pca_eq_def)
qed

lemma insensitive_unpack:
  "insensitive (unpack2 v)" "insensitive (unpack4 v)"
  by (auto simp: insensitive_def unpack2_def unpack4_def pca_eq_def split: sum.splits list.splits)

lemma insensitive_case_prod: "(\<And>a b. insensitive (f a b)) \<Longrightarrow> insensitive (case_prod f p)"
  by (cases p) simp

lemma insensitive_file_rest:
  assumes "pca_blind E"
  shows "insensitive (file_rest E lf sf En Cl A Y)"
  unfolding file_rest_def call2_def call4_def
  by (intro insensitive_bnd insensitive_ifc insensitive_call[OF assms] insensitive_ret insensitive_unpack
        insensitive_case_prod insensitive_getc insensitive_setcfg) simp_all

lemma lg_reflp: "reflp log_grows"
  by (simp add: reflp_def log_grows_def)

lemma lg_transp: "transp log_grows"
  by (rule transpI) (auto simp: log_grows_def)

lemma lg_call: "frame log_grows (call E n args)"
  by (simp add: frame_def call_def log_grows_def Let_def)

lemma lg_setcfg: "frame log_grows (setcfg u)"
  by (simp add: frame_def setcfg_def log_grows_def)

lemma lg_print: "frame log_grows (pyprint u)"
  by (simp add: frame_def pyprint_def log_grows_def)

lemmas lg_rules = frame_bnd[OF lg_transp] frame_ret[OF lg_reflp] frame_throw[OF lg_reflp]
  frame_unpack2[OF lg_reflp] frame_unpack3[OF lg_reflp] frame_unpack4[OF lg_reflp]
  frame_getc[OF lg_reflp] frame_index[OF lg_reflp] frame_shape0[OF lg_reflp]
  frame_global[OF lg_reflp] frame_local_var[OF lg_reflp] frame_struct lg_call lg_setcfg lg_print

lemma lg_file_rest: "frame log_grows (file_rest E lf sf En Cl A Y)"
  unfolding file_rest_def call2_def call4_def by (intro lg_rules)

lemma call4_world:
  assumes "call4 E n args w = (r, w1)"
  shows "w1 = w\<lparr>log := log w @ [Call n (cfg w) (map (snapshot (heap w)) args)]\<rparr>"
  using assms
  by (auto simp: call4_def bnd_def call_def unpack4_def Let_def split: sum.splits list.splits)

lemma insensitive_call4: "pca_blind E \<Longrightarrow> insensitive (call4 E n args)"
  unfolding call4_def by (intro insensitive_bnd insensitive_call insensitive_unpack)

lemma insensitiveD:
  assumes "insensitive q" "pca_eq w w'" "q w = (r, v)" "q w' = (r', v')"
  shows "r = r'" "pca_eq v v'"
  using assms unfolding insensitive_def by (metis fst_conv snd_conv)+

lemma pca_eq_sym: "pca_eq w w' \<Longrightarrow> pca_eq w' w"
  by (simp add: pca_eq_def)

lemma pca_eq_trans: "pca_eq a b \<Longrightarrow> pca_eq b c \<Longrightarrow> pca_eq a c"
  by (simp add: pca_eq_def)

lemma other_calls_pca: "set (call_names evs) \<subseteq> {''PCA'', ''plotPCA''} \<Longrightarrow> other_calls evs = []"
  by (induction evs rule: calls.induct) (auto simp: other_calls_def)

lemma runPCA_pca_eq: "pca_eq w (snd (runPCA E En Cl A Y k w))"
proof -
  obtain evs where
    l: "snd (runPCA E En Cl A Y k w) = w\<lparr>log := log w @ pca_log w Cl A k @ evs\<rparr>"
    and s: "set (call_names evs) \<subseteq> {''plotPCA''}"
    using runPCA_log by blast
  have "set (call_names (pca_log w Cl A k @ evs)) \<subseteq> {''PCA'', ''plotPCA''}"
    using s by (auto simp: call_names_append pca_log_def)
  from other_calls_pca[OF this] show ?thesis
    unfolding l by (simp add: pca_eq_def other_calls_append)
qed

text \<open>
  C8.  Take any world and run \<open>LearnPredictFile\<close> twice, with the PCA flag on and with it
  off, in an environment whose services do not look at that flag.  Every call of a service
  other than the diagnostic's that the run with the flag makes, the run without the flag makes
  too, in the same order and with the same arguments.  Either the two runs end the same way
  after exactly the same such calls, with the same files and heap; or the run with the flag has
  stopped with an exception inside the diagnostic, having called nothing but the loader of
  the training file.  \<open>runPCA\<close> returns no value and the training data are passed on as
  they were read.
\<close>

theorem C8_pca_is_a_side_diagnostic:
  assumes "pca_blind E"
  shows "prefix (other_calls (log (snd (LearnPredictFile E learnFile sampleFile (with_pca True w)))))
                (other_calls (log (snd (LearnPredictFile E learnFile sampleFile (with_pca False w)))))
    \<and> ((fst (LearnPredictFile E learnFile sampleFile (with_pca True w))
           = fst (LearnPredictFile E learnFile sampleFile (with_pca False w))
         \<and> other_calls (log (snd (LearnPredictFile E learnFile sampleFile (with_pca True w))))
           = other_calls (log (snd (LearnPredictFile E learnFile sampleFile (with_pca False w))))
         \<and> files (snd (LearnPredictFile E learnFile sampleFile (with_pca True w)))
           = files (snd (LearnPredictFile E learnFile sampleFile (with_pca False w)))
         \<and> heap (snd (LearnPredictFile E learnFile sampleFile (with_pca True w)))
           = heap (snd (LearnPredictFile E learnFile sampleFile (with_pca False w))))
        \<or> ((\<exists>e. fst (LearnPredictFile E learnFile sampleFile (with_pca True w)) = Inl e)
           \<and> other_calls (log (snd (LearnPredictFile E learnFile sampleFile (with_pca True w))))
             = other_calls (log w) @ [(''readLearnFile'', [Str learnFile])]))"
proof -
  let ?on = "LearnPredictFile E learnFile sampleFile (with_pca True w)"
  let ?off = "LearnPredictFile E learnFile sampleFile (with_pca False w)"
  let ?good = "fst ?on = fst ?off \<and> pca_eq (snd ?on) (snd ?off)"
  let ?bad = "(\<exists>e. fst ?on = Inl e)
     \<and> other_calls (log (snd ?on)) = other_calls (log w) @ [(''readLearnFile'', [Str learnFile])]
     \<and> prefix (other_calls (log (snd ?on))) (other_calls (log (snd ?off)))"
  have e0: "pca_eq (with_pca True w) (with_pca False w)"
    by (simp add: pca_eq_def with_pca_def)
  obtain r1 w1 where 1: "call4 E ''readLearnFile'' [Str learnFile] (with_pca True w) = (r1, w1)"
    by (cases "call4 E ''readLearnFile'' [Str learnFile] (with_pca True w)")
  obtain r2 w2 where 2: "call4 E ''readLearnFile'' [Str learnFile] (with_pca False w) = (r2, w2)"
    by (cases "call4 E ''readLearnFile'' [Str learnFile] (with_pca False w)")
  note W1 = call4_world[OF 1] and W2 = call4_world[OF 2]
  have r: "r1 = r2" and e1: "pca_eq w1 w2"
    using insensitiveD[OF insensitive_call4[OF assms] e0 1 2] by auto
  have "?good \<or> ?bad"
  proof (cases r1)
    case (Inl e)
    then show ?thesis using 1 2 r e1 by (simp add: LearnPredictFile_def bnd_def)
  next
    case (Inr x)
    obtain En Cl A Y where x: "x = (En, Cl, A, Y)" by (cases x) auto
    have r1: "r1 = Inr (En, Cl, A, Y)" and r2: "r2 = Inr (En, Cl, A, Y)"
      using Inr x r by simp_all
    have f1: "pcaDef_runPCA (cfg w1)" and f2: "\<not> pcaDef_runPCA (cfg w2)"
      by (simp_all add: W1 W2 with_pca_def)
    have off: "?off = file_rest E learnFile sampleFile En Cl A Y w2"
      using 2 r2 f2 by (simp add: LearnPredictFile_def bnd_def ifc_def ret_def)
    let ?k = "pcaDef_numPCAcomponents (cfg w1)"
    obtain rp wp where p: "runPCA E En Cl A Y ?k w1 = (rp, wp)"
      by (cases "runPCA E En Cl A Y ?k w1")
    have ep: "pca_eq w1 wp" using runPCA_pca_eq[of w1 E En Cl A Y ?k] p by simp
    have epo: "pca_eq wp w2" using ep e1 by (blast intro: pca_eq_sym pca_eq_trans)
    show ?thesis
    proof (cases rp)
      case (Inl e)
      have on: "?on = (Inl e, wp)"
        using 1 r1 f1 p Inl by (simp add: LearnPredictFile_def bnd_def ifc_def getc_def)
      have a: "other_calls (log wp) = other_calls (log w1)" using ep by (simp add: pca_eq_def)
      have b: "other_calls (log w1) = other_calls (log w) @ [(''readLearnFile'', [Str learnFile])]"
        by (simp add: W1 with_pca_def other_calls_append) (simp add: other_calls_def snapshot_def)
      have "log_grows w2 (snd ?off)"
        using frameD[OF lg_file_rest, of E learnFile sampleFile En Cl A Y w2 "fst ?off" "snd ?off"]
        by (simp add: off)
      then obtain evs where "log (snd ?off) = log w2 @ evs" by (auto simp: log_grows_def)
      then have "prefix (other_calls (log w2)) (other_calls (log (snd ?off)))"
        by (simp add: other_calls_append)
      moreover have "other_calls (log w2) = other_calls (log wp)" using epo by (simp add: pca_eq_def)
      ultimately show ?thesis using on a b by simp
    next
      case (Inr u)
      have on: "?on = file_rest E learnFile sampleFile En Cl A Y wp"
        using 1 r1 f1 p Inr by (simp add: LearnPredictFile_def bnd_def ifc_def getc_def)
      have "fst (file_rest E learnFile sampleFile En Cl A Y wp)
              = fst (file_rest E learnFile sampleFile En Cl A Y w2)
            \<and> pca_eq (snd (file_rest E learnFile sampleFile En Cl A Y wp))
                     (snd (file_rest E learnFile sampleFile En Cl A Y w2))"
        using insensitive_file_rest[OF assms, of learnFile sampleFile En Cl A Y] epo
        by (simp add: insensitive_def)
      then show ?thesis by (simp add: on off)
    qed
  qed
  then show ?thesis
  proof
    assume ?good
    then show ?thesis by (simp add: pca_eq_def)
  next
    assume ?bad
    then show ?thesis by blast
  qed
qed

lemmas eval_file = LearnPredictFile_def file_rest_def runPCA_def shape0_def index_def
  np_unique_count_def elems_def with_pca_def calls_of_def other_calls_def cfg_file_def
  upt_rec[of 0] upt_rec[of 1] upt_rec[of 2]

theorem C8_witness:
  "pca_blind env0
   \<and> fst (LearnPredictFile env0 ''train.txt'' ''sample.txt'' (with_pca True (world_of cfg_file))) = Inr ()
   \<and> calls_of ''PCA'' (log (snd (LearnPredictFile env0 ''train.txt'' ''sample.txt''
          (with_pca True (world_of cfg_file))))) = [[Num 2, A0]]
   \<and> fst (LearnPredictFile env0 ''train.txt'' ''sample.txt'' (with_pca False (world_of cfg_file))) = Inr ()
   \<and> other_calls (log (snd (LearnPredictFile env0 ''train.txt'' ''sample.txt''
          (with_pca True (world_of cfg_file)))))
     = other_calls (log (snd (LearnPredictFile env0 ''train.txt'' ''sample.txt''
          (with_pca False (world_of cfg_file)))))"
proof -
  have 1: "pca_blind env0"
    by (simp add: pca_blind_def env0_def ext0_def)
  have 2: "fst (LearnPredictFile env0 ''train.txt'' ''sample.txt''
                 (with_pca True (world_of cfg_file))) = Inr ()"
    by (simp add: eval_defs eval_file)
  have 3: "calls_of ''PCA'' (log (snd (LearnPredictFile env0 ''train.txt'' ''sample.txt''
          (with_pca True (world_of cfg_file))))) = [[Num 2, A0]]"
    by (simp add: eval_defs eval_file)
  from C8_pca_is_a_side_diagnostic[OF 1, of "''train.txt''" "''sample.txt''" "world_of cfg_file"]
    1 2 3 show ?thesis by auto
qed

section \<open>Map mode: the arrays kept for plotting\<close>

lemmas eval_map = LearnPredictMap_def map_init_def map_train_def map_pixel_def map_plots_def
  pixel_DNNTF_def pixel_Keras_def pixel_NN_def pixel_SVM_def pixel_TF_def pixel_KM_def
  save_pixel_def rows_def shape0_def index_def store_def np_empty_def calls_of_def
  env_1px_def cfg_tf_km_def cfg_nn_svm_def

text \<open>
  C2 does not hold of the code.  On the map of two pixels with sklearn-NN and SVM enabled the
  run returns normally and the sink receives one entry per model and pixel (sklearn-NN
  predicts 1, SVM predicts 2).  But the arrays handed to the plotting service hold the SVM
  predictions for both models: \<open>nnPred\<close> and \<open>svmPred\<close> are one array (line 245), and the
  store of line 290 overwrites what line 284 has stored.  The sklearn-NN predictions are
  retained nowhere.
\<close>

theorem C2_failing_input:
  "fst (LearnPredictMap env0 ''train.txt'' ''map.txt'' (world_of cfg_nn_svm)) = Inr ()
   \<and> ext env0 ''predNN'' cfg_nn_svm [] = Inr (Seq [Num 1, Num 90])
   \<and> ext env0 ''predSVM'' cfg_nn_svm [] = Inr (Seq [Num 2, Num 80])
   \<and> calls_of ''saveMap''
         (log (snd (LearnPredictMap env0 ''train.txt'' ''map.txt'' (world_of cfg_nn_svm))))
       = [[Str ''map.txt'', Str ''NN'', Str ''HC'', Num 1, Num 10, Num 20, Bool True],
          [Str ''map.txt'', Str ''svm'', Str ''HC'', Num 2, Num 10, Num 20, Bool True],
          [Str ''map.txt'', Str ''NN'', Str ''HC'', Num 1, Num 11, Num 21, Bool True],
          [Str ''map.txt'', Str ''svm'', Str ''HC'', Num 2, Num 11, Num 21, Bool True]]
   \<and> calls_of ''plotMaps''
         (log (snd (LearnPredictMap env0 ''train.txt'' ''map.txt'' (world_of cfg_nn_svm))))
       = [[Seq [Num 10, Num 11], Seq [Num 20, Num 21], Seq [Num 2, Num 2],
           Str ''Deep Neural networks - sklearn''],
          [Seq [Num 10, Num 11], Seq [Num 20, Num 21], Seq [Num 2, Num 2], Str ''SVM'']]"
  by (simp add: eval_defs eval_map)

section \<open>Map mode: one array under four names\<close>

text \<open>
  C9 does not hold of the code.  Line 245 does bind the four names \<open>svmPred\<close>,
  \<open>nnPred\<close>, \<open>tfPred\<close> and \<open>kmPred\<close> to one array, and the blocks of sklearn-NN, SVM
  and K-Means store into it at index \<open>i\<close> (lines 284, 290, 304).  The raw TensorFlow block
  does not: line 297 assigns to the name \<open>tfPred\<close> itself.  On the one-pixel map with raw
  TensorFlow and K-Means enabled the run returns; \<open>tfPred\<close> is then what \<open>predTF\<close>
  returned, no TensorFlow prediction is stored at index 0 of the shared array, and the
  K-Means prediction 5 stored there afterwards does not change what is retained for
  TensorFlow: the plotting service is given 6 for TensorFlow and 5 for K-Means.
\<close>

theorem C9_failing_input:
  "fst (LearnPredictMap env_1px ''train.txt'' ''map.txt'' (world_of cfg_tf_km)) = Inr ()
   \<and> calls_of ''saveMap''
         (log (snd (LearnPredictMap env_1px ''train.txt'' ''map.txt'' (world_of cfg_tf_km))))
       = [[Str ''map.txt'', Str ''TF'', Str ''HC'', Num 6, Num 10, Num 20, Bool True],
          [Str ''map.txt'', Str ''KM'', Str ''HC'', Num 5, Num 10, Num 20, Bool True]]
   \<and> calls_of ''plotMaps''
         (log (snd (LearnPredictMap env_1px ''train.txt'' ''map.txt'' (world_of cfg_tf_km))))
       = [[Seq [Num 10], Seq [Num 20], Seq [Num 6], Str ''TensorFlow''],
          [Seq [Num 10], Seq [Num 20], Seq [Num 5], Str ''K-Means Prediction'']]"
  by (simp add: eval_defs eval_map)

section \<open>Batch mode: the flags that a processed file leaves behind\<close>




























end
